theory Spec2Isabelle
  imports Complex_Main
begin

section \<open>JavaScript values\<close>

text \<open>
  The controller of \<^verbatim>\<open>helping_hands.js\<close> (class \<^verbatim>\<open>GlobalHandler\<close>) works on
  JavaScript values: the JSON of a response, the attributes and values of form fields, the
  arguments of the notification helper. A JavaScript string is modelled by a \<open>string\<close>
  whose characters stand for the code units U+0000 to U+00FF; a number by its class
  (not-a-number, an infinity, or a finite value given as a rational: every finite double
  is one, and \<open>Finite 0\<close> stands for both zeros, which no operation used here tells apart).
\<close>

datatype jsnum = NaN | PosInf | NegInf | Finite rat

datatype jsval =
    Undefined
  | Null
  | JBool bool
  | JNum jsnum
  | JStr string
  | JArr "jsval list"
  | JObj "(string \<times> jsval) list"

text \<open>The exceptions that can end a handler: a TypeError of the language, and the error
  jQuery throws on a selector it cannot read.\<close>

datatype error = TypeError | SelectorError

section \<open>The form\<close>

text \<open>
  A form as the handlers see it through jQuery: its \<^verbatim>\<open>action\<close> attribute, its fields
  in document order and the feedback slots (elements of class \<^verbatim>\<open>invalid-feedback\<close>).
  A field has its tag name in lower case and the attributes the code reads (\<^verbatim>\<open>name\<close>,
  \<^verbatim>\<open>id\<close>, \<^verbatim>\<open>type\<close>, \<^verbatim>\<open>required\<close>, \<^verbatim>\<open>multiple\<close>), whether it is
  disabled and whether it is checked, and whether it carries the class
  \<^verbatim>\<open>is-invalid\<close>. \<open>f_value\<close> is the text of an \<^verbatim>\<open>input\<close> or
  \<^verbatim>\<open>textarea\<close> as \<^verbatim>\<open>.val()\<close> reads it (the value of the element, which
  \<^verbatim>\<open>.val()\<close> returns without its carriage returns); \<open>f_selected\<close> holds the values of the options of a
  \<^verbatim>\<open>select\<close> that are selected and enabled, in order. The three defaults are what a
  reset restores. \<open>f_parent\<close> and \<open>s_parent\<close> name the parent element: a slot is a
  sibling of a field when both have the same parent, so two fields under one parent share
  their slots.
\<close>

record field =
  f_tag :: string
  f_name :: "string option"
  f_id :: "string option"
  f_type :: "string option"
  f_required :: bool
  f_disabled :: bool
  f_multiple :: bool
  f_value :: string
  f_default :: string
  f_selected :: "string list"
  f_default_selected :: "string list"
  f_checked :: bool
  f_default_checked :: bool
  f_invalid :: bool
  f_parent :: nat

record slot =
  s_parent :: nat
  s_text :: string

record form =
  action :: "string option"
  controls :: "field list"
  slots :: "slot list"

record validation =
  isValid :: bool
  v_errors :: "string list"

section \<open>The host\<close>

text \<open>
  What the host supplies and the program only calls: \<^verbatim>\<open>JSON.parse\<close>
  (\<open>None\<close> when it throws), the text of a number that is not a small integer
  (the shortest round-trip digits of a double), the locale's rendering used by
  \<^verbatim>\<open>toLocaleString\<close>, whether the page holds the element
  \<^verbatim>\<open>#donation-progress\<close>, and what jQuery's selector engine makes of
  \<^verbatim>\<open>[name="k"]\<close> for a key \<open>k\<close> that is not a plain name: \<open>None\<close> when it
  throws, else the fields it finds.
\<close>

record env =
  json_parse :: "string \<Rightarrow> jsval option"
  fraction_to_string :: "rat \<Rightarrow> string"
  locale_string :: "jsval \<Rightarrow> string"
  donation_progress_exists :: bool
  selector_engine :: "string \<Rightarrow> (field \<Rightarrow> bool) option"

section \<open>Conversions\<close>

text \<open>ToBoolean: what \<^verbatim>\<open>if (v)\<close>, \<^verbatim>\<open>!v\<close>, \<^verbatim>\<open>v || d\<close> and \<^verbatim>\<open>v ? a : b\<close> test.\<close>

fun truthy :: "jsval \<Rightarrow> bool" where
  "truthy Undefined = False"
| "truthy Null = False"
| "truthy (JBool b) = b"
| "truthy (JNum NaN) = False"
| "truthy (JNum PosInf) = True"
| "truthy (JNum NegInf) = True"
| "truthy (JNum (Finite r)) = (r \<noteq> 0)"
| "truthy (JStr s) = (s \<noteq> [])"
| "truthy (JArr xs) = True"
| "truthy (JObj kvs) = True"

definition js_or :: "jsval \<Rightarrow> jsval \<Rightarrow> jsval" where
  "js_or a b = (if truthy a then a else b)"

fun nullish :: "jsval \<Rightarrow> bool" where
  "nullish Undefined = True"
| "nullish Null = True"
| "nullish v = False"

text \<open>
  \<^verbatim>\<open>v.k\<close> for a receiver that is neither \<^verbatim>\<open>undefined\<close> nor \<^verbatim>\<open>null\<close> (reading
  a property of those throws a TypeError, which each caller below writes out). An object
  holds its properties in enumeration order with each key once; a missing property reads as
  \<^verbatim>\<open>undefined\<close>. None of the property names the program reads is a built-in
  property of a string, number, boolean or array, so they read as \<^verbatim>\<open>undefined\<close> there.
\<close>

fun get :: "jsval \<Rightarrow> string \<Rightarrow> jsval" where
  "get (JObj kvs) k = (case map_of kvs k of Some v \<Rightarrow> v | None \<Rightarrow> Undefined)"
| "get v k = Undefined"

text \<open>\<^verbatim>\<open>Array.prototype.join\<close> on strings.\<close>

fun join :: "string \<Rightarrow> string list \<Rightarrow> string" where
  "join sep [] = []"
| "join sep [x] = x"
| "join sep (x # y # ys) = x @ sep @ join sep (y # ys)"

text \<open>Decimal digits of a natural number.\<close>

function digits :: "nat \<Rightarrow> string" where
  "digits n =
     (if n < 10 then [''0123456789'' ! n]
      else digits (n div 10) @ [''0123456789'' ! (n mod 10)])"
  by pat_completeness auto
termination
  by (relation "measure (\<lambda>n. n)") auto

declare digits.simps [simp del]

text \<open>
  Number::toString: the special values, and an integer of magnitude at most \<open>2\<^sup>5\<^sup>3\<close>
  as its decimal digits (each such integer is a double, and its shortest digits that read
  back as it are its own); every other finite value is left to the host.
\<close>

definition number_to_string :: "env \<Rightarrow> jsnum \<Rightarrow> string" where
  "number_to_string e n =
     (case n of
        NaN \<Rightarrow> ''NaN''
      | PosInf \<Rightarrow> ''Infinity''
      | NegInf \<Rightarrow> ''-Infinity''
      | Finite r \<Rightarrow>
          (if of_int \<lfloor>r\<rfloor> = r \<and> \<bar>r\<bar> \<le> 2 ^ 53
           then (if r < 0 then ''-'' else []) @ digits (nat \<bar>\<lfloor>r\<rfloor>\<bar>)
           else fraction_to_string e r))"

text \<open>
  ToString, as a template literal \<^verbatim>\<open>${v}\<close> and \<^verbatim>\<open>v + '%'\<close> apply it. An array
  joins its elements with commas, \<^verbatim>\<open>null\<close> and \<^verbatim>\<open>undefined\<close> elements as empty
  text; a plain object is \<^verbatim>\<open>[object Object]\<close>.
\<close>

fun to_string :: "env \<Rightarrow> jsval \<Rightarrow> string" where
  "to_string e Undefined = ''undefined''"
| "to_string e Null = ''null''"
| "to_string e (JBool b) = (if b then ''true'' else ''false'')"
| "to_string e (JNum n) = number_to_string e n"
| "to_string e (JStr s) = s"
| "to_string e (JArr xs) =
     join '','' (map (\<lambda>x. if nullish x then [] else to_string e x) xs)"
| "to_string e (JObj kvs) = ''[object Object]''"

text \<open>
  \<^verbatim>\<open>v.toLocaleString()\<close>: a TypeError on \<^verbatim>\<open>undefined\<close> and \<^verbatim>\<open>null\<close>, which have
  no methods; the locale's text otherwise.
\<close>

definition toLocaleString :: "env \<Rightarrow> jsval \<Rightarrow> error + string" where
  "toLocaleString e v = (if nullish v then Inl TypeError else Inr (locale_string e v))"

section \<open>Strings: trimming, patterns, parseFloat\<close>

text \<open>
  White space and line terminators among the code units below U+0100, as
  \<^verbatim>\<open>String.prototype.trim\<close>, the pattern class \<^verbatim>\<open>\s\<close> and \<^verbatim>\<open>parseFloat\<close>
  read them: tab, line feed, vertical tab, form feed, carriage return, space, no-break space.
\<close>

definition is_space :: "char \<Rightarrow> bool" where
  "is_space c = (of_char c \<in> {9::nat, 10, 11, 12, 13, 32, 160})"

definition is_digit :: "char \<Rightarrow> bool" where
  "is_digit c = (48 \<le> (of_char c :: nat) \<and> (of_char c :: nat) \<le> 57)"

definition trimStart :: "string \<Rightarrow> string" where
  "trimStart s = dropWhile is_space s"

definition trim :: "string \<Rightarrow> string" where
  "trim s = rev (dropWhile is_space (rev (dropWhile is_space s)))"

text \<open>
  The two patterns of the validator use only single characters, classes repeated once or
  more, and concatenation. \<open>rests r s\<close> lists what can remain of \<open>s\<close> after \<open>r\<close> has
  matched a prefix of it; a pattern anchored at both ends (\<^verbatim>\<open>^...$\<close>, no flags) accepts
  \<open>s\<close> when nothing can remain.
\<close>

datatype rx = Chr char | ClassPlus "char \<Rightarrow> bool" | Seq rx rx

fun rests :: "rx \<Rightarrow> string \<Rightarrow> string list" where
  "rests (Chr c) s = (case s of [] \<Rightarrow> [] | d # t \<Rightarrow> if d = c then [t] else [])"
| "rests (ClassPlus p) s = map (\<lambda>k. drop k s) [1 ..< Suc (length (takeWhile p s))]"
| "rests (Seq a b) s = concat (map (rests b) (rests a s))"

definition rx_test :: "rx \<Rightarrow> string \<Rightarrow> bool" where
  "rx_test r s = list_ex (\<lambda>t. t = []) (rests r s)"

text \<open>
  \<^verbatim>\<open>parseFloat\<close>: leading white space is dropped, then the longest prefix that is a
  decimal literal is read: an optional sign, then \<^verbatim>\<open>Infinity\<close> or digits with an optional
  fraction and an optional exponent; whatever follows is ignored, and there is no such prefix
  exactly when the result is \<^verbatim>\<open>NaN\<close>. The value of the literal is rounded to a double:
  the model keeps the exact value and writes out only the two roundings that change its
  class, to zero (a value of at most \<open>2\<^sup>-\<^sup>1\<^sup>0\<^sup>7\<^sup>5\<close>) and to infinity (a value of at
  least \<open>2\<^sup>1\<^sup>0\<^sup>2\<^sup>4 - 2\<^sup>9\<^sup>7\<^sup>0\<close>), so that the sign and the comparison with zero are
  those of the double. (A host may cut a literal of more than 20 significant digits to 20
  before rounding; the model reads every digit.)
\<close>

datatype literal_value = LitInfinity | LitDecimal rat

definition digits_value :: "string \<Rightarrow> nat" where
  "digits_value ds = foldl (\<lambda>a c. 10 * a + (of_char c - 48)) 0 ds"

definition exponent_part :: "string \<Rightarrow> int" where
  "exponent_part s =
     (case s of
        [] \<Rightarrow> 0
      | c # t \<Rightarrow>
          if c = CHR ''e'' \<or> c = CHR ''E'' then
            (case t of
               [] \<Rightarrow> 0
             | d # u \<Rightarrow>
                 if d = CHR ''-'' then - int (digits_value (takeWhile is_digit u))
                 else if d = CHR ''+'' then int (digits_value (takeWhile is_digit u))
                 else int (digits_value (takeWhile is_digit t)))
          else 0)"

definition pow10 :: "int \<Rightarrow> rat" where
  "pow10 k = (if 0 \<le> k then 10 ^ nat k else 1 / 10 ^ nat (- k))"

definition unsigned_literal :: "string \<Rightarrow> literal_value option" where
  "unsigned_literal s =
     (if take 8 s = ''Infinity'' then Some LitInfinity
      else
        let d1 = takeWhile is_digit s;
            r1 = dropWhile is_digit s;
            d2 = (case r1 of [] \<Rightarrow> [] | c # t \<Rightarrow> if c = CHR ''.'' then takeWhile is_digit t else []);
            r2 = (case r1 of [] \<Rightarrow> [] | c # t \<Rightarrow> if c = CHR ''.'' then dropWhile is_digit t else r1)
        in if d1 = [] \<and> d2 = [] then None
           else Some (LitDecimal
                  (of_nat (digits_value (d1 @ d2)) * pow10 (exponent_part r2 - int (length d2)))))"

definition round_magnitude :: "rat \<Rightarrow> jsnum" where
  "round_magnitude v =
     (if v * 2 ^ 1075 \<le> 1 then Finite 0
      else if 2 ^ 1024 - 2 ^ 970 \<le> v then PosInf
      else Finite v)"

fun negate :: "jsnum \<Rightarrow> jsnum" where
  "negate NaN = NaN"
| "negate PosInf = NegInf"
| "negate NegInf = PosInf"
| "negate (Finite r) = Finite (- r)"

definition parseFloat :: "string \<Rightarrow> jsnum" where
  "parseFloat s =
     (let t = trimStart s;
          neg = (case t of [] \<Rightarrow> False | c # u \<Rightarrow> c = CHR ''-'');
          body = (case t of [] \<Rightarrow> [] | c # u \<Rightarrow> if c = CHR ''-'' \<or> c = CHR ''+'' then u else t)
      in case unsigned_literal body of
           None \<Rightarrow> NaN
         | Some LitInfinity \<Rightarrow> (if neg then NegInf else PosInf)
         | Some (LitDecimal v) \<Rightarrow> (if neg then negate (round_magnitude v) else round_magnitude v))"

text \<open>\<^verbatim>\<open>n <= 0\<close>: false on \<^verbatim>\<open>NaN\<close>.\<close>

fun le_zero :: "jsnum \<Rightarrow> bool" where
  "le_zero NaN = False"
| "le_zero PosInf = False"
| "le_zero NegInf = True"
| "le_zero (Finite r) = (r \<le> 0)"

section \<open>validateForm\<close>

text \<open>
  \<^verbatim>\<open>field.attr('name') || field.attr('id')\<close> as the message templates print it: the
  name unless it is missing or empty, else the id, else the text \<^verbatim>\<open>undefined\<close>.
\<close>

definition fieldName :: "field \<Rightarrow> string" where
  "fieldName f =
     (let by_id = (case f_id f of Some i \<Rightarrow> i | None \<Rightarrow> ''undefined'')
      in case f_name f of Some n \<Rightarrow> (if n = [] then by_id else n) | None \<Rightarrow> by_id)"

definition not_space_at :: "char \<Rightarrow> bool" where
  "not_space_at c = (\<not> is_space c \<and> c \<noteq> CHR ''@'')"

definition phone_char :: "char \<Rightarrow> bool" where
  "phone_char c = (is_digit c \<or> is_space c \<or> c \<in> set ''-+()'')"

text \<open>\<^verbatim>\<open>/^[^\s@]+@[^\s@]+\.[^\s@]+$/\<close> and \<^verbatim>\<open>/^[\d\s\-\+\(\)]+$/\<close>.\<close>

definition emailRegex :: rx where
  "emailRegex =
     Seq (ClassPlus not_space_at) (Seq (Chr CHR ''@'')
       (Seq (ClassPlus not_space_at) (Seq (Chr CHR ''.'') (ClassPlus not_space_at))))"

definition phoneRegex :: rx where
  "phoneRegex = ClassPlus phone_char"

text \<open>
  \<^verbatim>\<open>field.val()\<close>: the text of an \<^verbatim>\<open>input\<close> or \<^verbatim>\<open>textarea\<close>; for a
  \<^verbatim>\<open>select\<close> with \<^verbatim>\<open>multiple\<close> the array of the selected values, and for any other
  \<^verbatim>\<open>select\<close> the first selected value, or \<^verbatim>\<open>null\<close> when nothing is selected.
\<close>

definition val :: "field \<Rightarrow> jsval" where
  "val f =
     (if f_tag f = ''select'' then
        (if f_multiple f then JArr (map JStr (f_selected f))
         else (case f_selected f of [] \<Rightarrow> Null | s # ss \<Rightarrow> JStr s))
      else JStr (f_value f))"

text \<open>
  The body of the loop over the required fields: the field after it and the messages it
  pushes, or the TypeError of \<^verbatim>\<open>field.val().trim()\<close> when \<^verbatim>\<open>.val()\<close> is not a
  string (\<^verbatim>\<open>null\<close> has no properties, an array has no \<^verbatim>\<open>trim\<close>).
\<close>

definition validate_field :: "field \<Rightarrow> error + field \<times> string list" where
  "validate_field f =
     (case val f of
        JStr s \<Rightarrow>
          Inr (let v = trim s;
                   n = fieldName f;
                   (f1, e1) = (if v = [] then (f\<lparr>f_invalid := True\<rparr>, [n @ '' is required''])
                               else (f\<lparr>f_invalid := False\<rparr>, []));
                   (f2, e2) = (if f_type f = Some ''email'' \<and> v \<noteq> [] then
                                 (if rx_test emailRegex v then (f1, e1)
                                  else (f1\<lparr>f_invalid := True\<rparr>,
                                        e1 @ [n @ '' must be a valid email address'']))
                               else (f1, e1))
               in if f_type f = Some ''tel'' \<and> v \<noteq> [] then
                    (if rx_test phoneRegex v then (f2, e2)
                     else (f2\<lparr>f_invalid := True\<rparr>, e2 @ [n @ '' must be a valid phone number'']))
                  else (f2, e2))
      | _ \<Rightarrow> Inl TypeError)"

text \<open>
  The loop itself, over the fields in document order: fields that are not required are
  passed by; an exception ends the loop, leaving the fields before it as they were changed
  and the later ones untouched.
\<close>

fun validate_fields :: "field list \<Rightarrow> field list \<times> (error + string list)" where
  "validate_fields [] = ([], Inr [])"
| "validate_fields (f # fs) =
     (if f_required f then
        (case validate_field f of
           Inl x \<Rightarrow> (f # fs, Inl x)
         | Inr (f', es) \<Rightarrow>
             (case validate_fields fs of
                (fs', Inl x) \<Rightarrow> (f' # fs', Inl x)
              | (fs', Inr es') \<Rightarrow> (f' # fs', Inr (es @ es'))))
      else
        (case validate_fields fs of (fs', r) \<Rightarrow> (f # fs', r)))"

definition validateForm :: "form \<Rightarrow> form \<times> (error + validation)" where
  "validateForm frm =
     (case validate_fields (controls frm) of
        (cs, Inl x) \<Rightarrow> (frm\<lparr>controls := cs\<rparr>, Inl x)
      | (cs, Inr errs) \<Rightarrow>
          (frm\<lparr>controls := cs\<rparr>, Inr \<lparr>isValid = (errs = []), v_errors = errs\<rparr>))"

section \<open>Responses, requests and effects\<close>

text \<open>
  The response envelope of every endpoint: \<^verbatim>\<open>success\<close>, an optional \<^verbatim>\<open>message\<close>,
  \<^verbatim>\<open>data\<close> (any JSON value, \<open>Undefined\<close> when the envelope has none) and the optional
  \<^verbatim>\<open>errors\<close>, field names with their error strings in enumeration order.
\<close>

record envelope =
  success :: bool
  message :: "string option"
  data :: jsval
  errors :: "(string \<times> string) list option"

definition message_value :: "envelope \<Rightarrow> jsval" where
  "message_value r = (case message r of None \<Rightarrow> Undefined | Some m \<Rightarrow> JStr m)"

text \<open>The part of the failed \<^verbatim>\<open>XMLHttpRequest\<close> that \<^verbatim>\<open>handleAjaxError\<close> reads.\<close>

record xhr =
  status :: nat
  responseText :: string

text \<open>The settings object given to \<^verbatim>\<open>$.ajax\<close>; \<open>r_data\<close> holds the pairs that
  \<^verbatim>\<open>form.serialize()\<close> URL-encodes.\<close>

record request =
  r_type :: string
  r_url :: "string option"
  r_data :: "(string \<times> string) list"
  r_dataType :: string
  r_headers :: "(string \<times> string) list"

text \<open>
  What a handler does besides changing the form: the calls it makes, in order.
  \<open>Toast t m\<close> is \<^verbatim>\<open>showToastNotification(t, m)\<close>, which prints \<open>m\<close> into the
  notification's body; \<open>SetHtml\<close>, \<open>SetText\<close>, \<open>SetCss\<close> and \<open>SetAttr\<close> are the jQuery
  setters on the elements a selector finds (none, when the page has no such element).
\<close>

datatype effect =
    PreventDefault
  | ConsoleLog string
  | ConsoleError string
  | Toast string jsval
  | LoadingAnimation bool
  | Ajax request
  | SetHtml string string
  | SetText string string
  | SetCss string string string
  | SetAttr string string string
  | Trigger string jsval
  | ModalShow string

record global_handler =
  csrfToken :: string

text \<open>The text of a notification as the user reads it: the message put through ToString.\<close>

definition toast_body :: "env \<Rightarrow> jsval \<Rightarrow> string" where
  "toast_body e m = to_string e m"

text \<open>ASCII lower case, as the DOM reads the keyword of a \<^verbatim>\<open>type\<close> attribute.\<close>

definition lower :: "string \<Rightarrow> string" where
  "lower s =
     map (\<lambda>c. case map_of (zip ''ABCDEFGHIJKLMNOPQRSTUVWXYZ'' ''abcdefghijklmnopqrstuvwxyz'') c of
                 Some d \<Rightarrow> d | None \<Rightarrow> c) s"

text \<open>Whether the field is an \<^verbatim>\<open>input\<close> whose \<^verbatim>\<open>type\<close> property is one of \<open>ts\<close>.\<close>

definition type_in :: "field \<Rightarrow> string list \<Rightarrow> bool" where
  "type_in f ts =
     (f_tag f = ''input'' \<and> (case f_type f of None \<Rightarrow> False | Some t \<Rightarrow> lower t \<in> set ts))"

text \<open>
  The filter of jQuery's \<^verbatim>\<open>serializeArray\<close>: a control is sent when it has a
  non-empty name, is not disabled, is an \<^verbatim>\<open>input\<close>, \<^verbatim>\<open>select\<close>,
  \<^verbatim>\<open>textarea\<close> or \<^verbatim>\<open>keygen\<close>, is no button or file input, and is checked if it is
  a checkbox or a radio button.
\<close>

definition successful :: "field \<Rightarrow> bool" where
  "successful f =
     ((case f_name f of None \<Rightarrow> False | Some n \<Rightarrow> n \<noteq> [])
      \<and> \<not> f_disabled f
      \<and> f_tag f \<in> set [''input'', ''select'', ''textarea'', ''keygen'']
      \<and> \<not> type_in f [''submit'', ''button'', ''image'', ''reset'', ''file'']
      \<and> (if type_in f [''checkbox'', ''radio''] then f_checked f else True))"

text \<open>\<^verbatim>\<open>value.replace(/\r?\n/g, "\r\n")\<close>.\<close>

fun crlf :: "string \<Rightarrow> string" where
  "crlf [] = []"
| "crlf (c # d # t) =
     (if c = CHR 0x0D \<and> d = CHR 0x0A then CHR 0x0D # CHR 0x0A # crlf t
      else if c = CHR 0x0A then CHR 0x0D # CHR 0x0A # crlf (d # t)
      else c # crlf (d # t))"
| "crlf [c] = (if c = CHR 0x0A then [CHR 0x0D, CHR 0x0A] else [c])"

text \<open>
  \<^verbatim>\<open>form.serialize()\<close>, up to the URL encoding of the pairs: each successful control
  gives its name with its value, one pair for each value of an array, none for
  \<^verbatim>\<open>null\<close>.
\<close>

definition serialize_field :: "field \<Rightarrow> (string \<times> string) list" where
  "serialize_field f =
     (case f_name f of
        None \<Rightarrow> []
      | Some n \<Rightarrow>
          if successful f then
            (case val f of
               JStr s \<Rightarrow> [(n, crlf s)]
             | JArr vs \<Rightarrow> concat (map (\<lambda>v. case v of JStr s \<Rightarrow> [(n, crlf s)] | _ \<Rightarrow> []) vs)
             | _ \<Rightarrow> [])
          else [])"

definition serialize :: "form \<Rightarrow> (string \<times> string) list" where
  "serialize frm = concat (map serialize_field (controls frm))"

definition post :: "global_handler \<Rightarrow> form \<Rightarrow> request" where
  "post this frm =
     \<lparr>r_type = ''POST'', r_url = action frm, r_data = serialize frm, r_dataType = ''json'',
      r_headers = [(''X-CSRFToken'', csrfToken this)]\<rparr>"

text \<open>\<^verbatim>\<open>form[0].reset()\<close> and \<^verbatim>\<open>form.find('.is-invalid').removeClass('is-invalid')\<close>.\<close>

definition reset :: "form \<Rightarrow> form" where
  "reset frm =
     frm\<lparr>controls :=
           map (\<lambda>f. f\<lparr>f_value := f_default f, f_selected := f_default_selected f,
                       f_checked := f_default_checked f\<rparr>) (controls frm)\<rparr>"

definition clear_invalid :: "form \<Rightarrow> form" where
  "clear_invalid frm = frm\<lparr>controls := map (\<lambda>f. f\<lparr>f_invalid := False\<rparr>) (controls frm)\<rparr>"

section \<open>handleFormErrors and handleAjaxError\<close>

text \<open>
  The key of an error is spliced into the selector \<^verbatim>\<open>[name="k"]\<close> as it is. A plain
  key (no double quote, backslash, line break or NUL) gives the attribute test it looks
  like: the fields whose \<^verbatim>\<open>name\<close> is \<open>k\<close>. What any other key gives is the selector
  engine's business.
\<close>

definition plain_key :: "string \<Rightarrow> bool" where
  "plain_key k =
     list_all (\<lambda>c. c \<notin> set [CHR 0x00, CHR 0x0A, CHR 0x0C, CHR 0x0D, CHR 0x22, CHR 0x5C]) k"

definition find_named :: "env \<Rightarrow> string \<Rightarrow> (field \<Rightarrow> bool) option" where
  "find_named e k = (if plain_key k then Some (\<lambda>f. f_name f = Some k) else selector_engine e k)"

text \<open>
  The body of the loop over \<^verbatim>\<open>Object.keys(response.errors)\<close> for the key \<open>k\<close> with
  the error string \<open>msg\<close>: every field found gets the class \<^verbatim>\<open>is-invalid\<close>, and
  every feedback slot that is a sibling of such a field gets \<open>msg\<close> as its text.
\<close>

definition flag_field :: "env \<Rightarrow> string \<Rightarrow> string \<Rightarrow> form \<Rightarrow> error + form" where
  "flag_field e k msg frm =
     (case find_named e k of
        None \<Rightarrow> Inl SelectorError
      | Some found \<Rightarrow>
          Inr (let parents = map f_parent (filter found (controls frm))
               in frm\<lparr>controls := map (\<lambda>f. if found f then f\<lparr>f_invalid := True\<rparr> else f)
                                     (controls frm),
                       slots := map (\<lambda>s. if s_parent s \<in> set parents then s\<lparr>s_text := msg\<rparr> else s)
                                  (slots frm)\<rparr>))"

text \<open>The loop: an object holds each key once, so going through its keys and reading the
  value of each is going through its pairs. An exception ends it, with the form as the
  keys before have left it.\<close>

fun flag_fields :: "env \<Rightarrow> (string \<times> string) list \<Rightarrow> form \<Rightarrow> form \<times> error option" where
  "flag_fields e [] frm = (frm, None)"
| "flag_fields e ((k, msg) # es) frm =
     (case flag_field e k msg frm of
        Inl x \<Rightarrow> (frm, Some x)
      | Inr frm1 \<Rightarrow> flag_fields e es frm1)"

text \<open>A handler or renderer returns the effects it made and the exception that ended it, if
  one did.\<close>

type_synonym outcome = "effect list \<times> error option"

definition handleFormErrors :: "env \<Rightarrow> form \<Rightarrow> envelope \<Rightarrow> form \<times> outcome" where
  "handleFormErrors e frm response =
     (case flag_fields e (case errors response of None \<Rightarrow> [] | Some es \<Rightarrow> es) frm of
        (frm1, x) \<Rightarrow>
          (frm1,
           [Toast ''error'' (js_or (message_value response) (JStr ''Form submission failed''))],
           x))"

text \<open>The \<^verbatim>\<open>switch (xhr.status)\<close> of \<^verbatim>\<open>handleAjaxError\<close>, with the initial
  message as its default.\<close>

definition status_message :: "nat \<Rightarrow> string" where
  "status_message s =
     (if s = 400 then ''Bad request. Please check your input.''
      else if s = 401 then ''Unauthorized. Please log in.''
      else if s = 403 then ''Forbidden. You do not have permission.''
      else if s = 404 then ''Resource not found.''
      else if s = 500 then ''Server error. Please try again later.''
      else ''An unexpected error occurred.'')"

text \<open>
  The \<^verbatim>\<open>try\<close> block: \<^verbatim>\<open>JSON.parse\<close> throws on a body that is not JSON, and
  \<^verbatim>\<open>response.message\<close> throws on the JSON \<^verbatim>\<open>null\<close>; the empty \<^verbatim>\<open>catch\<close> then
  leaves the message of the status.
\<close>

definition handleAjaxError :: "env \<Rightarrow> xhr \<Rightarrow> effect list" where
  "handleAjaxError e x =
     (let errorMessage =
            (case json_parse e (responseText x) of
               None \<Rightarrow> JStr (status_message (status x))
             | Some response \<Rightarrow>
                 if nullish response then JStr (status_message (status x))
                 else if truthy (get response ''message'') then get response ''message''
                 else JStr (status_message (status x)))
      in [ConsoleError ''AJAX Error:'', Toast ''error'' errorMessage])"

text \<open>The \<^verbatim>\<open>error\<close> callback of every request.\<close>

definition ajax_error :: "env \<Rightarrow> xhr \<Rightarrow> effect list" where
  "ajax_error e x = LoadingAnimation False # handleAjaxError e x"

section \<open>The contact form: handleFormSubmission\<close>

text \<open>
  Each handler is two functions: what runs on the submit event, and the \<^verbatim>\<open>success\<close>
  callback that runs when the response has arrived, on the form as it is by then. Both
  return the form, the effects and the exception that ended the run, if one did.
\<close>

definition handleFormSubmission :: "global_handler \<Rightarrow> form \<Rightarrow> form \<times> outcome" where
  "handleFormSubmission this frm =
     (case validateForm frm of
        (frm1, Inl x) \<Rightarrow> (frm1, [PreventDefault], Some x)
      | (frm1, Inr validation) \<Rightarrow>
          if \<not> isValid validation then
            (frm1, [PreventDefault, Toast ''error'' (JStr (join ''<br>'' (v_errors validation)))],
             None)
          else
            (frm1, [PreventDefault, LoadingAnimation True, Ajax (post this frm1)], None))"

definition handleFormSubmission_success :: "env \<Rightarrow> form \<Rightarrow> envelope \<Rightarrow> form \<times> outcome" where
  "handleFormSubmission_success e frm response =
     (if success response then
        (clear_invalid (reset frm),
         [LoadingAnimation False,
          Toast ''success'' (js_or (message_value response) (JStr ''Form submitted successfully'')),
          Trigger ''formSubmitted'' (data response)],
         None)
      else
        (case handleFormErrors e frm response of
           (frm1, effs, x) \<Rightarrow> (frm1, LoadingAnimation False # effs, x)))"

section \<open>The confirmation renderers\<close>

text \<open>\<open>and_then\<close> runs a second step after a first unless the first threw.\<close>

definition and_then :: "outcome \<Rightarrow> outcome \<Rightarrow> outcome" where
  "and_then a b = (case snd a of Some x \<Rightarrow> a | None \<Rightarrow> (fst a @ fst b, snd b))"

definition showRegistrationConfirmation :: "env \<Rightarrow> jsval \<Rightarrow> outcome" where
  \<open>showRegistrationConfirmation e d =
     (if nullish d then ([], Some TypeError)
      else
        ([SetHtml ''#registration-confirmation''
           (''\<newline>            <div class="alert alert-success mt-3" role="alert">''
            @ ''\<newline>                <h5>Registration Confirmed!</h5>''
            @ ''\<newline>                <p><strong>Registration ID:</strong> ''
            @ to_string e (get d ''registration_id'') @ ''</p>''
            @ ''\<newline>                <p><strong>Event:</strong> ''
            @ to_string e (get d ''event_name'') @ ''</p>''
            @ ''\<newline>                <p><strong>Date:</strong> ''
            @ to_string e (get d ''event_date'') @ ''</p>''
            @ ''\<newline>                <p>A confirmation email has been sent to ''
            @ to_string e (get d ''confirmation_email'') @ ''</p>''
            @ ''\<newline>            </div>''
            @ ''\<newline>        '')],
         None))\<close>

definition showVolunteerWelcome :: "env \<Rightarrow> jsval \<Rightarrow> outcome" where
  \<open>showVolunteerWelcome e d =
     (if nullish d then ([], Some TypeError)
      else
        ([SetHtml ''#volunteer-welcome''
           (''\<newline>            <div class="alert alert-info mt-3" role="alert">''
            @ ''\<newline>                <h5>Welcome, '' @ to_string e (get d ''name'') @ ''!</h5>''
            @ ''\<newline>                <p><strong>Volunteer ID:</strong> ''
            @ to_string e (get d ''volunteer_id'') @ ''</p>''
            @ ''\<newline>                ''
            @ (if truthy (get d ''next_steps'')
               then ''<p>'' @ to_string e (get d ''next_steps'') @ ''</p>'' else [])
            @ ''\<newline>            </div>''
            @ ''\<newline>        '')],
         None))\<close>

definition updateDonationProgress :: "env \<Rightarrow> jsval \<Rightarrow> outcome" where
  "updateDonationProgress e progress =
     (if \<not> donation_progress_exists e then ([], None)
      else if nullish progress then ([], Some TypeError)
      else
        let percentage = js_or (get progress ''percentage'') (JNum (Finite 0));
            bar = [SetCss ''#donation-progress'' ''width'' (to_string e percentage @ ''%''),
                   SetAttr ''#donation-progress'' ''aria-valuenow'' (to_string e percentage),
                   SetText ''#donation-progress'' (to_string e percentage @ ''%'')]
        in case toLocaleString e (get progress ''current'') of
             Inl x \<Rightarrow> (bar, Some x)
           | Inr c \<Rightarrow>
               (case toLocaleString e (get progress ''goal'') of
                  Inl x \<Rightarrow> (bar @ [SetText ''#campaign-current'' (''$'' @ c)], Some x)
                | Inr g \<Rightarrow>
                    (bar @ [SetText ''#campaign-current'' (''$'' @ c),
                            SetText ''#campaign-goal'' (''$'' @ g)], None)))"

definition showDonationReceipt :: "env \<Rightarrow> jsval \<Rightarrow> outcome" where
  \<open>showDonationReceipt e d =
     (if nullish d then ([], Some TypeError)
      else
        ([SetHtml ''#donation-receipt''
           (''\<newline>            <div class="alert alert-success mt-3" role="alert">''
            @ ''\<newline>                <h5>Thank you for your donation!</h5>''
            @ ''\<newline>                <p><strong>Transaction ID:</strong> ''
            @ to_string e (get d ''transaction_id'') @ ''</p>''
            @ ''\<newline>                <p><strong>Amount:</strong> $''
            @ to_string e (get d ''amount'') @ '' '' @ to_string e (get d ''currency'') @ ''</p>''
            @ ''\<newline>                <p><a href="'' @ to_string e (get d ''receipt_url'')
            @ ''" target="_blank" class="btn btn-sm btn-outline-success">Download Receipt</a></p>''
            @ ''\<newline>            </div>''
            @ ''\<newline>        '')],
         None))\<close>

section \<open>Registration, volunteer sign-up and donation\<close>

definition handleEventRegistration :: "global_handler \<Rightarrow> form \<Rightarrow> form \<times> outcome" where
  "handleEventRegistration this frm =
     (case validateForm frm of
        (frm1, Inl x) \<Rightarrow>
          (frm1, [PreventDefault, ConsoleLog ''Handling event registration...''], Some x)
      | (frm1, Inr validation) \<Rightarrow>
          if \<not> isValid validation then
            (frm1, [PreventDefault, ConsoleLog ''Handling event registration...'',
                    Toast ''error'' (JStr (join ''<br>'' (v_errors validation)))], None)
          else
            (frm1, [PreventDefault, ConsoleLog ''Handling event registration...'',
                    LoadingAnimation True, Ajax (post this frm1)], None))"

definition handleEventRegistration_success ::
  "env \<Rightarrow> form \<Rightarrow> envelope \<Rightarrow> form \<times> outcome" where
  "handleEventRegistration_success e frm response =
     (if success response then
        (reset frm,
         and_then ([LoadingAnimation False, Toast ''success'' (message_value response)], None)
        (and_then (if truthy (data response) \<and> truthy (get (data response) ''registration_id'')
                   then showRegistrationConfirmation e (data response) else ([], None))
                  ([Trigger ''eventRegistered'' (data response)], None)))
      else
        (case handleFormErrors e frm response of
           (frm1, effs, x) \<Rightarrow> (frm1, LoadingAnimation False # effs, x)))"

definition handleVolunteerSignUp :: "global_handler \<Rightarrow> form \<Rightarrow> form \<times> outcome" where
  "handleVolunteerSignUp this frm =
     (case validateForm frm of
        (frm1, Inl x) \<Rightarrow>
          (frm1, [PreventDefault, ConsoleLog ''Handling volunteer sign-up...''], Some x)
      | (frm1, Inr validation) \<Rightarrow>
          if \<not> isValid validation then
            (frm1, [PreventDefault, ConsoleLog ''Handling volunteer sign-up...'',
                    Toast ''error'' (JStr (join ''<br>'' (v_errors validation)))], None)
          else
            (frm1, [PreventDefault, ConsoleLog ''Handling volunteer sign-up...'',
                    LoadingAnimation True, Ajax (post this frm1)], None))"

definition handleVolunteerSignUp_success ::
  "env \<Rightarrow> form \<Rightarrow> envelope \<Rightarrow> form \<times> outcome" where
  "handleVolunteerSignUp_success e frm response =
     (if success response then
        (reset frm,
         and_then ([LoadingAnimation False, Toast ''success'' (message_value response)], None)
        (and_then (if truthy (data response)
                   then showVolunteerWelcome e (data response) else ([], None))
                  ([Trigger ''volunteerSignedUp'' (data response)], None)))
      else
        (case handleFormErrors e frm response of
           (frm1, effs, x) \<Rightarrow> (frm1, LoadingAnimation False # effs, x)))"

text \<open>
  \<^verbatim>\<open>form.find('input[name="amount"]').val()\<close>: the text of the first
  \<^verbatim>\<open>input\<close> named \<^verbatim>\<open>amount\<close> (the \<^verbatim>\<open>.val()\<close> of an \<^verbatim>\<open>input\<close> is
  always a string), \<open>None\<close> (\<^verbatim>\<open>undefined\<close>) when the form has none.
\<close>

definition amount_value :: "form \<Rightarrow> string option" where
  "amount_value frm =
     (case filter (\<lambda>f. f_tag f = ''input'' \<and> f_name f = Some ''amount'') (controls frm) of
        [] \<Rightarrow> None
      | f # fs \<Rightarrow> Some (f_value f))"

text \<open>\<^verbatim>\<open>!amount || parseFloat(amount) <= 0\<close>.\<close>

definition amount_rejected :: "string option \<Rightarrow> bool" where
  "amount_rejected amount =
     (case amount of
        None \<Rightarrow> True
      | Some a \<Rightarrow> if a = [] then True else le_zero (parseFloat a))"

definition handleDonationProcessing :: "global_handler \<Rightarrow> form \<Rightarrow> form \<times> outcome" where
  "handleDonationProcessing this frm =
     (if amount_rejected (amount_value frm) then
        (frm, [PreventDefault, Toast ''error'' (JStr ''Please enter a valid donation amount'')],
         None)
      else
        (case validateForm frm of
           (frm1, Inl x) \<Rightarrow> (frm1, [PreventDefault], Some x)
         | (frm1, Inr validation) \<Rightarrow>
             if \<not> isValid validation then
               (frm1, [PreventDefault,
                       Toast ''error'' (JStr (join ''<br>'' (v_errors validation)))], None)
             else
               (frm1, [PreventDefault,
                       ConsoleLog (''Processing donation of $''
                                   @ (case amount_value frm of None \<Rightarrow> ''undefined'' | Some a \<Rightarrow> a)
                                   @ ''...''),
                       LoadingAnimation True, Ajax (post this frm1)], None)))"

definition handleDonationProcessing_success ::
  "env \<Rightarrow> form \<Rightarrow> envelope \<Rightarrow> form \<times> outcome" where
  "handleDonationProcessing_success e frm response =
     (if success response then
        (reset frm,
         and_then ([LoadingAnimation False, Toast ''success'' (message_value response)], None)
        (and_then (if truthy (data response) \<and> truthy (get (data response) ''campaign_progress'')
                   then updateDonationProgress e (get (data response) ''campaign_progress'')
                   else ([], None))
        (and_then (if truthy (data response) \<and> truthy (get (data response) ''receipt_url'')
                   then showDonationReceipt e (data response) else ([], None))
                  ([Trigger ''donationProcessed'' (data response)], None))))
      else
        (case handleFormErrors e frm response of
           (frm1, effs, x) \<Rightarrow> (frm1, LoadingAnimation False # effs, x)))"

section \<open>Event details\<close>



text \<open>\<open>eventId\<close> is what \<^verbatim>\<open>$(e.currentTarget).data('event-id')\<close> returned:
  \<^verbatim>\<open>undefined\<close> when the element carries no identifier.\<close>

definition loadEventDetails :: "env \<Rightarrow> jsval \<Rightarrow> effect list" where
  "loadEventDetails e eventId =
     (if \<not> truthy eventId then
        [PreventDefault, Toast ''error'' (JStr ''Event ID not found'')]
      else
        [PreventDefault, LoadingAnimation True,
         Ajax \<lparr>r_type = ''GET'', r_url = Some (''/api/events/'' @ to_string e eventId @ ''/''),
               r_data = [], r_dataType = ''json'', r_headers = []\<rparr>])"


section \<open>Reading the effects\<close>

text \<open>The requests a run of a handler issued, and the notifications it showed, in order.\<close>

definition requests :: "effect list \<Rightarrow> request list" where
  "requests effs = concat (map (\<lambda>x. case x of Ajax r \<Rightarrow> [r] | _ \<Rightarrow> []) effs)"

definition toasts :: "effect list \<Rightarrow> (string \<times> jsval) list" where
  "toasts effs = concat (map (\<lambda>x. case x of Toast t m \<Rightarrow> [(t, m)] | _ \<Rightarrow> []) effs)"

text \<open>A field whose \<^verbatim>\<open>.val()\<close> is a string, and a form all of whose required fields
  are such.\<close>

definition string_valued :: "field \<Rightarrow> bool" where
  "string_valued f = (case val f of JStr s \<Rightarrow> True | _ \<Rightarrow> False)"

definition required_strings :: "form \<Rightarrow> bool" where
  "required_strings frm =
     list_all (\<lambda>f. if f_required f then string_valued f else True) (controls frm)"

text \<open>The pairs of \<^verbatim>\<open>response.errors\<close>, none when the envelope has no such object.\<close>

definition error_list :: "envelope \<Rightarrow> (string \<times> string) list" where
  "error_list r = (case errors r of None \<Rightarrow> [] | Some es \<Rightarrow> es)"

text \<open>The step of the loop of \<^verbatim>\<open>handleFormErrors\<close> for a plain key: the fields found
  are the fields of that name.\<close>

definition flag_named :: "string \<Rightarrow> string \<Rightarrow> form \<Rightarrow> form" where
  "flag_named k msg frm =
     (let parents = map f_parent (filter (\<lambda>f. f_name f = Some k) (controls frm))
      in frm\<lparr>controls := map (\<lambda>f. if f_name f = Some k then f\<lparr>f_invalid := True\<rparr> else f)
                            (controls frm),
              slots := map (\<lambda>s. if s_parent s \<in> set parents then s\<lparr>s_text := msg\<rparr> else s)
                         (slots frm)\<rparr>)"

text \<open>
  A slot is adjacent to the plain key \<open>k\<close> when it is a sibling of a field named \<open>k\<close>:
  \<^verbatim>\<open>form.find('[name="k"]').siblings('.invalid-feedback')\<close> finds it.
\<close>

definition adjacent :: "form \<Rightarrow> string \<Rightarrow> slot \<Rightarrow> bool" where
  "adjacent frm k s =
     (s_parent s \<in> set (map f_parent (filter (\<lambda>f. f_name f = Some k) (controls frm))))"

text \<open>The text of a slot once every pair of \<open>es\<close> has been handled in order: the error
  string of the last key the slot is adjacent to, and its old text when there is none.\<close>

definition slot_text_after :: "form \<Rightarrow> (string \<times> string) list \<Rightarrow> slot \<Rightarrow> string" where
  "slot_text_after frm es s =
     (case filter (\<lambda>(k, msg). adjacent frm k s) es of
        [] \<Rightarrow> s_text s
      | p # ps \<Rightarrow> snd (last (p # ps)))"

section \<open>Example pages\<close>

text \<open>
  Concrete forms, responses and a host, on which the theorems below are run. Every field of
  the example forms sits in a group of its own with one feedback slot, but for
  \<open>name_form\<close>, whose two fields share one. The example host parses the two JSON bodies
  it is given and no other text, prints integers in the manner of the locale
  \<^verbatim>\<open>en-US\<close> (digits in groups of three), and takes every key that is not plain for a
  syntax error, as jQuery does the key \<^verbatim>\<open>a"b\<close>; the examples use small integers only,
  so its text for other numbers is never read.
\<close>

definition text_input :: "string \<Rightarrow> string \<Rightarrow> bool \<Rightarrow> string \<Rightarrow> nat \<Rightarrow> field" where
  "text_input n t req v p =
     \<lparr>f_tag = ''input'', f_name = Some n, f_id = None, f_type = Some t, f_required = req,
      f_disabled = False, f_multiple = False, f_value = v, f_default = [], f_selected = [],
      f_default_selected = [], f_checked = False, f_default_checked = False, f_invalid = False,
      f_parent = p\<rparr>"

definition select_multiple :: "string \<Rightarrow> bool \<Rightarrow> string list \<Rightarrow> nat \<Rightarrow> field" where
  "select_multiple n req chosen p =
     \<lparr>f_tag = ''select'', f_name = Some n, f_id = None, f_type = None, f_required = req,
      f_disabled = False, f_multiple = True, f_value = [], f_default = [], f_selected = chosen,
      f_default_selected = [], f_checked = False, f_default_checked = False, f_invalid = False,
      f_parent = p\<rparr>"

definition feedback :: "nat \<Rightarrow> slot" where
  "feedback p = \<lparr>s_parent = p, s_text = []\<rparr>"

definition contact_form :: "string \<Rightarrow> string \<Rightarrow> string \<Rightarrow> form" where
  "contact_form nm em ph =
     \<lparr>action = Some ''/contact/'',
      controls = [text_input ''name'' ''text'' True nm 0,
                  text_input ''email'' ''email'' True em 1,
                  text_input ''phone'' ''tel'' False ph 2],
      slots = [feedback 0, feedback 1, feedback 2]\<rparr>"

definition donation_form :: "string \<Rightarrow> string \<Rightarrow> form" where
  "donation_form amount email =
     \<lparr>action = Some ''/donate/'',
      controls = [text_input ''amount'' ''text'' True amount 0,
                  text_input ''email'' ''email'' True email 1],
      slots = [feedback 0, feedback 1]\<rparr>"

text \<open>A donation form with an optional field for the phone number.\<close>

definition gift_form :: "string \<Rightarrow> string \<Rightarrow> string \<Rightarrow> form" where
  "gift_form amount email ph =
     \<lparr>action = Some ''/donate/'',
      controls = [text_input ''amount'' ''text'' True amount 0,
                  text_input ''email'' ''email'' True email 1,
                  text_input ''phone'' ''tel'' False ph 2],
      slots = [feedback 0, feedback 1, feedback 2]\<rparr>"

text \<open>A volunteer form whose areas of interest are a required \<^verbatim>\<open>select\<close> with
  \<^verbatim>\<open>multiple\<close>.\<close>

definition volunteer_form :: "string \<Rightarrow> string list \<Rightarrow> form" where
  "volunteer_form nm areas =
     \<lparr>action = Some ''/volunteer/'',
      controls = [text_input ''name'' ''text'' True nm 0,
                  select_multiple ''areas_of_interest'' True areas 1],
      slots = [feedback 0, feedback 1]\<rparr>"

text \<open>Two fields under one parent, with the one slot of that parent.\<close>

definition name_form :: form where
  "name_form =
     \<lparr>action = Some ''/contact/'',
      controls = [text_input ''first'' ''text'' True [] 0, text_input ''last'' ''text'' True [] 0],
      slots = [feedback 0]\<rparr>"

definition example_handler :: global_handler where
  "example_handler = \<lparr>csrfToken = ''token''\<rparr>"

text \<open>Digits in groups of three, from the right.\<close>

function group3 :: "string \<Rightarrow> string" where
  "group3 ds =
     (if length ds \<le> 3 then ds
      else group3 (take (length ds - 3) ds) @ '','' @ drop (length ds - 3) ds)"
  by pat_completeness auto
termination
  by (relation "measure length") auto

declare group3.simps [simp del]

definition plain_env :: env where
  \<open>plain_env =
     \<lparr>json_parse = map_of
        [(''{"message":"Bad email"}'', JObj [(''message'', JStr ''Bad email'')]),
         (''{"message":""}'', JObj [(''message'', JStr [])])],
      fraction_to_string = (\<lambda>r. ''?''),
      locale_string = (\<lambda>v. ''?''),
      donation_progress_exists = True,
      selector_engine = (\<lambda>k. None)\<rparr>\<close>

definition example_env :: env where
  "example_env =
     plain_env\<lparr>locale_string :=
       (\<lambda>v. case v of
              JNum (Finite r) \<Rightarrow>
                (if of_int \<lfloor>r\<rfloor> = r \<and> \<bar>r\<bar> \<le> 2 ^ 53
                 then (if r < 0 then ''-'' else []) @ group3 (digits (nat \<bar>\<lfloor>r\<rfloor>\<bar>))
                 else ''?'')
            | _ \<Rightarrow> to_string plain_env v)\<rparr>"

definition email_error :: envelope where
  "email_error =
     \<lparr>success = False, message = None, data = Undefined,
      errors = Some [(''email'', ''Invalid'')]\<rparr>"

definition phone_error :: envelope where
  "phone_error =
     \<lparr>success = False, message = Some ''Please correct the errors below'', data = Undefined,
      errors = Some [(''phone'', ''Invalid phone'')]\<rparr>"

definition names_error :: envelope where
  "names_error =
     \<lparr>success = False, message = None, data = Undefined,
      errors = Some [(''first'', ''A''), (''last'', ''B'')]\<rparr>"

definition ok_envelope :: envelope where
  "ok_envelope = \<lparr>success = True, message = Some ''OK'', data = Undefined, errors = None\<rparr>"

definition bare_success :: envelope where
  "bare_success = \<lparr>success = True, message = None, data = Undefined, errors = None\<rparr>"


text \<open>The contact form and the donation form after the server refused the phone number.\<close>

definition flagged_form :: form where
  "flagged_form =
     fst (handleFormErrors example_env (contact_form ''Ann'' ''ann@b.co'' ''12345'') phone_error)"

definition flagged_gift_form :: form where
  "flagged_gift_form =
     fst (handleFormErrors example_env (gift_form ''25'' ''ann@b.co'' ''12345'') phone_error)"

section \<open>Evaluation rules and general facts\<close>

lemmas string_eval = trim_def trimStart_def is_space_def is_digit_def rx_test_def emailRegex_def
  phoneRegex_def not_space_at_def phone_char_def

lemmas parse_eval = parseFloat_def unsigned_literal_def round_magnitude_def digits_value_def
  pow10_def exponent_part_def

lemmas form_eval = validateForm_def validate_field_def val_def fieldName_def text_input_def
  select_multiple_def feedback_def Let_def amount_value_def amount_rejected_def

lemmas serialize_eval = serialize_def serialize_field_def successful_def type_in_def lower_def
  post_def val_def

lemma amount_rejected_iff:
  "amount_rejected amount \<longleftrightarrow>
     amount = None \<or> amount = Some [] \<or> (\<exists>a. amount = Some a \<and> le_zero (parseFloat a))"
  by (auto simp: amount_rejected_def split: option.splits)

text \<open>Trimming leaves nothing exactly of the strings that are empty or all white space.\<close>

lemma trim_empty_iff: "trim s = [] \<longleftrightarrow> list_all is_space s"
proof
  assume "trim s = []"
  then have all: "\<forall>c \<in> set (dropWhile is_space s). is_space c"
    by (simp add: trim_def dropWhile_eq_Nil_conv)
  have "dropWhile is_space s = []"
  proof (rule ccontr)
    assume ne: "dropWhile is_space s \<noteq> []"
    then have "\<not> is_space (hd (dropWhile is_space s))" by (rule hd_dropWhile)
    moreover have "hd (dropWhile is_space s) \<in> set (dropWhile is_space s)"
      using ne by (rule hd_in_set)
    ultimately show False using all by blast
  qed
  then show "list_all is_space s"
    by (simp add: dropWhile_eq_Nil_conv list_all_iff)
next
  assume "list_all is_space s"
  then have "dropWhile is_space s = []"
    by (simp add: dropWhile_eq_Nil_conv list_all_iff)
  then show "trim s = []" by (auto simp: trim_def dest: set_dropWhileD)
qed

text \<open>The validator changes nothing of a field but its invalid flag, so nothing of what
  is serialized.\<close>

lemma validate_field_frame: "validate_field f = Inr (f', es) \<Longrightarrow> \<exists>b. f' = f\<lparr>f_invalid := b\<rparr>"
  by (auto simp: validate_field_def Let_def split: jsval.splits prod.splits if_splits)

lemma validate_fields_frame:
  "map (\<lambda>f. f\<lparr>f_invalid := False\<rparr>) (fst (validate_fields cs)) = map (\<lambda>f. f\<lparr>f_invalid := False\<rparr>) cs"
proof (induction cs)
  case Nil
  then show ?case by simp
next
  case (Cons f fs)
  show ?case
  proof (cases "f_required f")
    case False
    with Cons show ?thesis by (cases "validate_fields fs") simp
  next
    case True
    show ?thesis
    proof (cases "validate_field f")
      case (Inl x)
      with True show ?thesis by simp
    next
      case (Inr p)
      obtain f' es where p: "p = (f', es)" by (cases p)
      with Inr obtain b where "f' = f\<lparr>f_invalid := b\<rparr>"
        using validate_field_frame by blast
      with True Inr p Cons show ?thesis
        by (cases "validate_fields fs"; cases "snd (validate_fields fs)") simp_all
    qed
  qed
qed

lemma validateForm_controls: "controls (fst (validateForm frm)) = fst (validate_fields (controls frm))"
  by (simp add: validateForm_def split: prod.splits sum.splits)

lemma validateForm_action [simp]: "action (fst (validateForm frm)) = action frm"
  and validateForm_slots [simp]: "slots (fst (validateForm frm)) = slots frm"
  by (simp_all add: validateForm_def split: prod.splits sum.splits)

lemma validateForm_result:
  "snd (validateForm frm) =
     (case snd (validate_fields (controls frm)) of
        Inl x \<Rightarrow> Inl x
      | Inr errs \<Rightarrow> Inr \<lparr>isValid = (errs = []), v_errors = errs\<rparr>)"
  by (simp add: validateForm_def split: prod.splits sum.splits)

lemma serialize_field_invalid [simp]: "serialize_field (f\<lparr>f_invalid := b\<rparr>) = serialize_field f"
  by (cases "f_name f") (simp_all add: serialize_field_def successful_def type_in_def val_def)

lemma serialize_validateForm [simp]: "serialize (fst (validateForm frm)) = serialize frm"
proof -
  have "map serialize_field cs = map serialize_field (map (\<lambda>f. f\<lparr>f_invalid := False\<rparr>) cs)" for cs
    by (simp add: comp_def)
  then show ?thesis
    unfolding serialize_def validateForm_controls
    by (metis validate_fields_frame)
qed

text \<open>When every required field has a string for its value the loop runs to its end, and
  its result holds the messages of each required field.\<close>

lemma string_valued_validates: "string_valued f \<Longrightarrow> \<exists>f' es. validate_field f = Inr (f', es)"
  by (auto simp: string_valued_def validate_field_def split: jsval.splits)

lemma validate_fields_returns:
  "list_all (\<lambda>f. if f_required f then string_valued f else True) cs \<Longrightarrow>
   \<exists>errs. snd (validate_fields cs) = Inr errs"
proof (induction cs)
  case Nil
  then show ?case by simp
next
  case (Cons f fs)
  then obtain errs where e: "snd (validate_fields fs) = Inr errs" by auto
  show ?case
  proof (cases "f_required f")
    case False
    with e show ?thesis by (cases "validate_fields fs") simp
  next
    case True
    with Cons.prems have "string_valued f" by simp
    then obtain f' es where "validate_field f = Inr (f', es)"
      using string_valued_validates by blast
    with True e show ?thesis by (cases "validate_fields fs") simp
  qed
qed

lemma validate_fields_member:
  "snd (validate_fields cs) = Inr errs \<Longrightarrow> f \<in> set cs \<Longrightarrow> f_required f \<Longrightarrow>
   validate_field f = Inr (f', es) \<Longrightarrow> set es \<subseteq> set errs"
proof (induction cs arbitrary: errs)
  case Nil
  then show ?case by simp
next
  case (Cons g gs)
  show ?case
  proof (cases "f_required g")
    case False
    with Cons.prems have "snd (validate_fields gs) = Inr errs" "f \<in> set gs"
      by (auto split: prod.splits)
    with Cons show ?thesis by blast
  next
    case True
    with Cons.prems(1) obtain g' es1 es2 where
      g: "validate_field g = Inr (g', es1)" and r: "snd (validate_fields gs) = Inr es2"
      and errs: "errs = es1 @ es2"
      by (auto split: prod.splits sum.splits)
    show ?thesis
    proof (cases "f = g")
      case True
      with g Cons.prems(4) errs show ?thesis by auto
    next
      case False
      with Cons.prems have "f \<in> set gs" by simp
      with Cons.IH [OF r] Cons.prems errs show ?thesis by auto
    qed
  qed
qed

lemma validate_field_blank:
  "val f = JStr s \<Longrightarrow> list_all is_space s \<Longrightarrow>
   \<exists>f'. validate_field f = Inr (f', [fieldName f @ '' is required''])"
  by (simp add: validate_field_def trim_empty_iff [THEN iffD2] Let_def)

text \<open>The only exception of the validator is the TypeError, and a handler it ends has shown
  no notification and issued no request.\<close>

lemma validate_fields_error: "snd (validate_fields cs) = Inl x \<Longrightarrow> x = TypeError"
proof (induction cs)
  case Nil
  then show ?case by simp
next
  case (Cons f fs)
  have "validate_field f = Inl y \<Longrightarrow> y = TypeError" for y
    by (auto simp: validate_field_def split: jsval.splits)
  with Cons show ?case
    by (auto split: if_splits prod.splits sum.splits)
qed

lemma validation_throw_stops:
  assumes "snd (validateForm frm) = Inl x"
  shows "x = TypeError"
    and "handleFormSubmission this frm = (fst (validateForm frm), [PreventDefault], Some TypeError)"
    and "handleEventRegistration this frm =
           (fst (validateForm frm),
            [PreventDefault, ConsoleLog ''Handling event registration...''], Some TypeError)"
    and "handleVolunteerSignUp this frm =
           (fst (validateForm frm),
            [PreventDefault, ConsoleLog ''Handling volunteer sign-up...''], Some TypeError)"
    and "\<not> amount_rejected (amount_value frm) \<Longrightarrow>
         handleDonationProcessing this frm = (fst (validateForm frm), [PreventDefault], Some TypeError)"
proof -
  show x: "x = TypeError"
    using assms validate_fields_error [of "controls frm" x]
    by (auto simp: validateForm_result split: sum.splits)
  have v: "validateForm frm = (fst (validateForm frm), Inl TypeError)"
    using assms x by (metis prod.collapse)
  show "handleFormSubmission this frm = (fst (validateForm frm), [PreventDefault], Some TypeError)"
    by (subst handleFormSubmission_def, subst v) simp
  show "handleEventRegistration this frm =
           (fst (validateForm frm),
            [PreventDefault, ConsoleLog ''Handling event registration...''], Some TypeError)"
    by (subst handleEventRegistration_def, subst v) simp
  show "handleVolunteerSignUp this frm =
           (fst (validateForm frm),
            [PreventDefault, ConsoleLog ''Handling volunteer sign-up...''], Some TypeError)"
    by (subst handleVolunteerSignUp_def, subst v) simp
  show "handleDonationProcessing this frm = (fst (validateForm frm), [PreventDefault], Some TypeError)"
    if "\<not> amount_rejected (amount_value frm)"
    using that by (subst handleDonationProcessing_def, subst v) simp
qed

text \<open>What the handlers do with a result of the validator.\<close>

lemma validation_result_handled:
  assumes "snd (validateForm frm) = Inr v"
  shows "handleFormSubmission this frm =
           (if \<not> isValid v then
              (fst (validateForm frm),
               [PreventDefault, Toast ''error'' (JStr (join ''<br>'' (v_errors v)))], None)
            else
              (fst (validateForm frm),
               [PreventDefault, LoadingAnimation True, Ajax (post this (fst (validateForm frm)))],
               None))"
    and "handleEventRegistration this frm =
           (if \<not> isValid v then
              (fst (validateForm frm),
               [PreventDefault, ConsoleLog ''Handling event registration...'',
                Toast ''error'' (JStr (join ''<br>'' (v_errors v)))], None)
            else
              (fst (validateForm frm),
               [PreventDefault, ConsoleLog ''Handling event registration...'',
                LoadingAnimation True, Ajax (post this (fst (validateForm frm)))], None))"
    and "handleVolunteerSignUp this frm =
           (if \<not> isValid v then
              (fst (validateForm frm),
               [PreventDefault, ConsoleLog ''Handling volunteer sign-up...'',
                Toast ''error'' (JStr (join ''<br>'' (v_errors v)))], None)
            else
              (fst (validateForm frm),
               [PreventDefault, ConsoleLog ''Handling volunteer sign-up...'',
                LoadingAnimation True, Ajax (post this (fst (validateForm frm)))], None))"
    and "\<not> amount_rejected (amount_value frm) \<Longrightarrow>
         handleDonationProcessing this frm =
           (if \<not> isValid v then
              (fst (validateForm frm),
               [PreventDefault, Toast ''error'' (JStr (join ''<br>'' (v_errors v)))], None)
            else
              (fst (validateForm frm),
               [PreventDefault,
                ConsoleLog (''Processing donation of $''
                            @ (case amount_value frm of None \<Rightarrow> ''undefined'' | Some a \<Rightarrow> a)
                            @ ''...''),
                LoadingAnimation True, Ajax (post this (fst (validateForm frm)))], None))"
proof -
  have v: "validateForm frm = (fst (validateForm frm), Inr v)"
    using assms by (metis prod.collapse)
  show "handleFormSubmission this frm =
           (if \<not> isValid v then
              (fst (validateForm frm),
               [PreventDefault, Toast ''error'' (JStr (join ''<br>'' (v_errors v)))], None)
            else
              (fst (validateForm frm),
               [PreventDefault, LoadingAnimation True, Ajax (post this (fst (validateForm frm)))],
               None))"
    by (subst handleFormSubmission_def, subst v) simp
  show "handleEventRegistration this frm =
           (if \<not> isValid v then
              (fst (validateForm frm),
               [PreventDefault, ConsoleLog ''Handling event registration...'',
                Toast ''error'' (JStr (join ''<br>'' (v_errors v)))], None)
            else
              (fst (validateForm frm),
               [PreventDefault, ConsoleLog ''Handling event registration...'',
                LoadingAnimation True, Ajax (post this (fst (validateForm frm)))], None))"
    by (subst handleEventRegistration_def, subst v) simp
  show "handleVolunteerSignUp this frm =
           (if \<not> isValid v then
              (fst (validateForm frm),
               [PreventDefault, ConsoleLog ''Handling volunteer sign-up...'',
                Toast ''error'' (JStr (join ''<br>'' (v_errors v)))], None)
            else
              (fst (validateForm frm),
               [PreventDefault, ConsoleLog ''Handling volunteer sign-up...'',
                LoadingAnimation True, Ajax (post this (fst (validateForm frm)))], None))"
    by (subst handleVolunteerSignUp_def, subst v) simp
  show "handleDonationProcessing this frm =
           (if \<not> isValid v then
              (fst (validateForm frm),
               [PreventDefault, Toast ''error'' (JStr (join ''<br>'' (v_errors v)))], None)
            else
              (fst (validateForm frm),
               [PreventDefault,
                ConsoleLog (''Processing donation of $''
                            @ (case amount_value frm of None \<Rightarrow> ''undefined'' | Some a \<Rightarrow> a)
                            @ ''...''),
                LoadingAnimation True, Ajax (post this (fst (validateForm frm)))], None))"
    if "\<not> amount_rejected (amount_value frm)"
    using that by (subst handleDonationProcessing_def, subst v) simp
qed

section \<open>Validation before submission\<close>

text \<open>
  C7, as amended. Of a form whose required fields all have a string for their value, the
  validator returns a result, valid exactly when it holds no violation. A required field
  whose value is empty or all white space makes the result invalid, with the violation
  \<^verbatim>\<open><field> is required\<close> naming it by its name or id. When validation fails, the contact,
  registration and volunteer handlers show one error notification, the violations joined by
  \<^verbatim>\<open><br>\<close>, and issue no request. The donation handler issues no request either, and shows
  the joined violations when its amount pre-check has let the submission through to
  validation.
\<close>

theorem required_fields_validation:
  assumes "required_strings frm"
  shows "\<exists>v. snd (validateForm frm) = Inr v
     \<and> isValid v = (v_errors v = [])
     \<and> (\<forall>f s. f \<in> set (controls frm) \<and> f_required f \<and> val f = JStr s \<and> list_all is_space s \<longrightarrow>
            \<not> isValid v \<and> (fieldName f @ '' is required'') \<in> set (v_errors v))
     \<and> (\<not> isValid v \<longrightarrow>
          (let shown = [(''error'', JStr (join ''<br>'' (v_errors v)))]
           in toasts (fst (snd (handleFormSubmission this frm))) = shown
            \<and> requests (fst (snd (handleFormSubmission this frm))) = []
            \<and> snd (snd (handleFormSubmission this frm)) = None
            \<and> toasts (fst (snd (handleEventRegistration this frm))) = shown
            \<and> requests (fst (snd (handleEventRegistration this frm))) = []
            \<and> snd (snd (handleEventRegistration this frm)) = None
            \<and> toasts (fst (snd (handleVolunteerSignUp this frm))) = shown
            \<and> requests (fst (snd (handleVolunteerSignUp this frm))) = []
            \<and> snd (snd (handleVolunteerSignUp this frm)) = None
            \<and> requests (fst (snd (handleDonationProcessing this frm))) = []
            \<and> snd (snd (handleDonationProcessing this frm)) = None
            \<and> (\<not> amount_rejected (amount_value frm) \<longrightarrow>
                 toasts (fst (snd (handleDonationProcessing this frm))) = shown)))"
proof -
  obtain errs where errs: "snd (validate_fields (controls frm)) = Inr errs"
    using assms validate_fields_returns unfolding required_strings_def by blast
  define v where "v = \<lparr>isValid = (errs = []), v_errors = errs\<rparr>"
  have v: "snd (validateForm frm) = Inr v"
    by (simp add: validateForm_result errs v_def)
  have valid: "isValid v = (v_errors v = [])"
    by (simp add: v_def)
  have blank: "\<not> isValid v \<and> (fieldName f @ '' is required'') \<in> set (v_errors v)"
    if "f \<in> set (controls frm) \<and> f_required f \<and> val f = JStr s \<and> list_all is_space s" for f s
  proof -
    from that obtain f' where "validate_field f = Inr (f', [fieldName f @ '' is required''])"
      using validate_field_blank by blast
    with errs that have "set [fieldName f @ '' is required''] \<subseteq> set errs"
      using validate_fields_member by blast
    then show ?thesis by (auto simp: v_def)
  qed
  have stop: "let shown = [(''error'', JStr (join ''<br>'' (v_errors v)))]
           in toasts (fst (snd (handleFormSubmission this frm))) = shown
            \<and> requests (fst (snd (handleFormSubmission this frm))) = []
            \<and> snd (snd (handleFormSubmission this frm)) = None
            \<and> toasts (fst (snd (handleEventRegistration this frm))) = shown
            \<and> requests (fst (snd (handleEventRegistration this frm))) = []
            \<and> snd (snd (handleEventRegistration this frm)) = None
            \<and> toasts (fst (snd (handleVolunteerSignUp this frm))) = shown
            \<and> requests (fst (snd (handleVolunteerSignUp this frm))) = []
            \<and> snd (snd (handleVolunteerSignUp this frm)) = None
            \<and> requests (fst (snd (handleDonationProcessing this frm))) = []
            \<and> snd (snd (handleDonationProcessing this frm)) = None
            \<and> (\<not> amount_rejected (amount_value frm) \<longrightarrow>
                 toasts (fst (snd (handleDonationProcessing this frm))) = shown)"
    if "\<not> isValid v"
  proof (cases "amount_rejected (amount_value frm)")
    case True
    then have "handleDonationProcessing this frm =
        (frm, [PreventDefault, Toast ''error'' (JStr ''Please enter a valid donation amount'')], None)"
      by (simp add: handleDonationProcessing_def)
    with True that show ?thesis
      by (simp add: validation_result_handled(1-3) [OF v] toasts_def requests_def)
  next
    case False
    with that show ?thesis
      by (simp add: validation_result_handled(1-3) [OF v]
            validation_result_handled(4) [OF v False] toasts_def requests_def)
  qed
  from v valid blank stop show ?thesis by blast
qed

text \<open>
  The theorem on a contact form whose name is blank and whose email has no dot after the
  \<^verbatim>\<open>@\<close>, and on a donation form with a good amount and no email.
\<close>

theorem required_fields_validation_witness:
  "required_strings (contact_form ''  '' ''a@b'' [])
   \<and> snd (validateForm (contact_form ''  '' ''a@b'' [])) =
       Inr \<lparr>isValid = False,
            v_errors = [''name is required'', ''email must be a valid email address'']\<rparr>
   \<and> toasts (fst (snd (handleFormSubmission example_handler (contact_form ''  '' ''a@b'' [])))) =
       [(''error'', JStr ''name is required<br>email must be a valid email address'')]
   \<and> requests (fst (snd (handleFormSubmission example_handler (contact_form ''  '' ''a@b'' [])))) = []
   \<and> required_strings (donation_form ''25'' [])
   \<and> \<not> amount_rejected (amount_value (donation_form ''25'' []))
   \<and> snd (validateForm (donation_form ''25'' [])) =
       Inr \<lparr>isValid = False, v_errors = [''email is required'']\<rparr>
   \<and> toasts (fst (snd (handleDonationProcessing example_handler (donation_form ''25'' [])))) =
       [(''error'', JStr ''email is required'')]
   \<and> requests (fst (snd (handleDonationProcessing example_handler (donation_form ''25'' [])))) = []"
proof -
  have r: "required_strings (contact_form ''  '' ''a@b'' [])"
    and s: "required_strings (donation_form ''25'' [])"
    by (simp_all add: required_strings_def string_valued_def contact_form_def donation_form_def
          form_eval)
  have v: "snd (validateForm (contact_form ''  '' ''a@b'' [])) =
       Inr \<lparr>isValid = False,
            v_errors = [''name is required'', ''email must be a valid email address'']\<rparr>"
    by (simp add: contact_form_def form_eval string_eval)
  have d: "snd (validateForm (donation_form ''25'' [])) =
       Inr \<lparr>isValid = False, v_errors = [''email is required'']\<rparr>"
    by (simp add: donation_form_def form_eval string_eval)
  have a: "\<not> amount_rejected (amount_value (donation_form ''25'' []))"
    by (simp add: donation_form_def form_eval parse_eval string_eval)
  from required_fields_validation [OF r, of example_handler] v
  have c1: "toasts (fst (snd (handleFormSubmission example_handler (contact_form ''  '' ''a@b'' [])))) =
       [(''error'', JStr ''name is required<br>email must be a valid email address'')]
     \<and> requests (fst (snd (handleFormSubmission example_handler (contact_form ''  '' ''a@b'' [])))) = []"
    by (auto simp: Let_def)
  from required_fields_validation [OF s, of example_handler] d a
  have c2: "toasts (fst (snd (handleDonationProcessing example_handler (donation_form ''25'' [])))) =
       [(''error'', JStr ''email is required'')]
     \<and> requests (fst (snd (handleDonationProcessing example_handler (donation_form ''25'' [])))) = []"
    by (auto simp: Let_def)
  from r s v d a c1 c2 show ?thesis by blast
qed

text \<open>
  The claim as first stated fails in two places. On a donation form with the amount \<^verbatim>\<open>0\<close>
  and an empty required email, validation of the form fails with \<^verbatim>\<open>email is required\<close>,
  and the notification shown is the one of the amount pre-check, which runs first. On a
  volunteer form whose required name is empty and whose required field of interests is a
  \<^verbatim>\<open>select multiple\<close>, the value of that field is an array, \<^verbatim>\<open>trim\<close> is not a function of
  it, and the handler ends by the TypeError with no validation result, no notification and
  no request.
\<close>

theorem donation_precheck_precedes_validation_counterexample:
  "snd (validateForm (donation_form ''0'' [])) =
     Inr \<lparr>isValid = False, v_errors = [''email is required'']\<rparr>
   \<and> toasts (fst (snd (handleDonationProcessing example_handler (donation_form ''0'' [])))) =
       [(''error'', JStr ''Please enter a valid donation amount'')]
   \<and> toasts (fst (snd (handleDonationProcessing example_handler (donation_form ''0'' [])))) \<noteq>
       [(''error'', JStr (join ''<br>'' [''email is required'']))]
   \<and> list_all is_space (f_value (hd (controls (volunteer_form [] [''Education'']))))
   \<and> f_required (hd (controls (volunteer_form [] [''Education''])))
   \<and> snd (validateForm (volunteer_form [] [''Education''])) = Inl TypeError
   \<and> snd (handleVolunteerSignUp example_handler (volunteer_form [] [''Education''])) =
       ([PreventDefault, ConsoleLog ''Handling volunteer sign-up...''], Some TypeError)"
proof -
  have v: "snd (validateForm (donation_form ''0'' [])) =
     Inr \<lparr>isValid = False, v_errors = [''email is required'']\<rparr>"
    by (simp add: donation_form_def form_eval string_eval)
  have a: "amount_rejected (amount_value (donation_form ''0'' []))"
    by (simp add: donation_form_def form_eval parse_eval string_eval)
  have t: "snd (validateForm (volunteer_form [] [''Education''])) = Inl TypeError"
    by (simp add: volunteer_form_def form_eval string_eval)
  have h: "snd (handleVolunteerSignUp example_handler (volunteer_form [] [''Education''])) =
       ([PreventDefault, ConsoleLog ''Handling volunteer sign-up...''], Some TypeError)"
    by (simp add: validation_throw_stops(4) [OF t])
  have f: "list_all is_space (f_value (hd (controls (volunteer_form [] [''Education'']))))"
    "f_required (hd (controls (volunteer_form [] [''Education''])))"
    by (simp_all add: volunteer_form_def text_input_def)
  from v a t h f show ?thesis
    by (simp add: handleDonationProcessing_def toasts_def)
qed

section \<open>The donation amount\<close>

text \<open>
  C5. A donation submission whose amount field is missing, empty, or parses to a number
  that is at most zero ends with the error notification
  \<^verbatim>\<open>Please enter a valid donation amount\<close> and nothing else: the form is left as it was,
  no request is issued and no exception is raised. Nothing is assumed of the other fields,
  so the outcome is the same whether or not they would pass validation.
\<close>

theorem donation_amount_precheck:
  assumes "amount_value frm = None \<or> amount_value frm = Some []
           \<or> (\<exists>a. amount_value frm = Some a \<and> le_zero (parseFloat a))"
  shows "handleDonationProcessing this frm =
           (frm, [PreventDefault, Toast ''error'' (JStr ''Please enter a valid donation amount'')],
            None)
         \<and> requests (fst (snd (handleDonationProcessing this frm))) = []"
proof -
  have "amount_rejected (amount_value frm)"
    using assms by (simp add: amount_rejected_iff)
  then show ?thesis
    by (simp add: handleDonationProcessing_def requests_def)
qed

text \<open>
  The theorem on the amount \<^verbatim>\<open>0\<close> with a form that fails validation, and on the amount
  \<^verbatim>\<open>-5\<close> with a form that passes it.
\<close>

theorem donation_amount_precheck_witness:
  "amount_value (donation_form ''0'' []) = Some ''0''
   \<and> le_zero (parseFloat ''0'')
   \<and> snd (validateForm (donation_form ''0'' [])) =
       Inr \<lparr>isValid = False, v_errors = [''email is required'']\<rparr>
   \<and> handleDonationProcessing example_handler (donation_form ''0'' []) =
       (donation_form ''0'' [],
        [PreventDefault, Toast ''error'' (JStr ''Please enter a valid donation amount'')], None)
   \<and> amount_value (donation_form ''-5'' ''a@b.co'') = Some ''-5''
   \<and> le_zero (parseFloat ''-5'')
   \<and> snd (validateForm (donation_form ''-5'' ''a@b.co'')) = Inr \<lparr>isValid = True, v_errors = []\<rparr>
   \<and> handleDonationProcessing example_handler (donation_form ''-5'' ''a@b.co'') =
       (donation_form ''-5'' ''a@b.co'',
        [PreventDefault, Toast ''error'' (JStr ''Please enter a valid donation amount'')], None)"
proof -
  have a: "amount_value (donation_form ''0'' []) = Some ''0''"
    and b: "amount_value (donation_form ''-5'' ''a@b.co'') = Some ''-5''"
    by (simp_all add: donation_form_def form_eval)
  have z: "le_zero (parseFloat ''0'')" and m: "le_zero (parseFloat ''-5'')"
    by (simp_all add: parse_eval string_eval)
  have v: "snd (validateForm (donation_form ''0'' [])) =
       Inr \<lparr>isValid = False, v_errors = [''email is required'']\<rparr>"
    by (simp add: donation_form_def form_eval string_eval)
  have w: "snd (validateForm (donation_form ''-5'' ''a@b.co'')) = Inr \<lparr>isValid = True, v_errors = []\<rparr>"
    by (simp add: donation_form_def form_eval string_eval)
  show ?thesis
    using donation_amount_precheck [of "donation_form ''0'' []" example_handler]
      donation_amount_precheck [of "donation_form ''-5'' ''a@b.co''" example_handler]
      a b z m v w
    by simp
qed

text \<open>The first amount input of a form is serialized with its value when it is a successful
  control.\<close>

lemma amount_value_serialized:
  assumes "amount_value frm = Some a"
    and "list_all (\<lambda>f. f_tag f = ''input'' \<and> f_name f = Some ''amount'' \<longrightarrow> successful f)
           (controls frm)"
  shows "(''amount'', crlf a) \<in> set (serialize frm)"
proof -
  obtain f fs where
    "filter (\<lambda>f. f_tag f = ''input'' \<and> f_name f = Some ''amount'') (controls frm) = f # fs"
    and a: "f_value f = a"
    using assms(1) by (auto simp: amount_value_def split: list.splits)
  then have "f \<in> set (filter (\<lambda>f. f_tag f = ''input'' \<and> f_name f = Some ''amount'') (controls frm))"
    by simp
  then have f: "f \<in> set (controls frm)" "f_name f = Some ''amount''" "f_tag f = ''input''"
    by simp_all
  with assms(2) have "successful f" by (simp add: list_all_iff)
  with f a have "serialize_field f = [(''amount'', crlf a)]"
    by (simp add: serialize_field_def val_def)
  with f(1) show ?thesis
    by (force simp: serialize_def)
qed

text \<open>
  C9. An amount that is not empty and that \<^verbatim>\<open>parseFloat\<close> reads as \<^verbatim>\<open>NaN\<close> passes the
  pre-check. Handling goes on to validation: when that fails its violations are shown, and
  when it passes one POST request is issued with the serialized form for its data, which
  carry the amount as typed when the amount inputs are successful controls. When the
  validator raises, the handler ends by that exception with no request.
\<close>

theorem nonnumeric_amount_is_posted:
  assumes "amount_value frm = Some a" "a \<noteq> []" "parseFloat a = NaN"
  shows "\<not> amount_rejected (amount_value frm)
         \<and> (\<forall>v. snd (validateForm frm) = Inr v \<and> \<not> isValid v \<longrightarrow>
              toasts (fst (snd (handleDonationProcessing this frm))) =
                [(''error'', JStr (join ''<br>'' (v_errors v)))]
              \<and> requests (fst (snd (handleDonationProcessing this frm))) = [])
         \<and> (\<forall>v. snd (validateForm frm) = Inr v \<and> isValid v \<longrightarrow>
              requests (fst (snd (handleDonationProcessing this frm))) =
                [post this (fst (validateForm frm))]
              \<and> toasts (fst (snd (handleDonationProcessing this frm))) = []
              \<and> snd (snd (handleDonationProcessing this frm)) = None
              \<and> r_type (post this (fst (validateForm frm))) = ''POST''
              \<and> r_data (post this (fst (validateForm frm))) = serialize frm
              \<and> (list_all (\<lambda>f. f_tag f = ''input'' \<and> f_name f = Some ''amount'' \<longrightarrow> successful f)
                   (controls frm) \<longrightarrow>
                 (''amount'', crlf a) \<in> set (r_data (post this (fst (validateForm frm))))))
         \<and> (\<forall>x. snd (validateForm frm) = Inl x \<longrightarrow>
              snd (handleDonationProcessing this frm) = ([PreventDefault], Some TypeError))"
proof -
  have nr: "\<not> amount_rejected (amount_value frm)"
    using assms by (simp add: amount_rejected_def)
  have th: "snd (handleDonationProcessing this frm) = ([PreventDefault], Some TypeError)"
    if "snd (validateForm frm) = Inl x" for x
    by (simp add: validation_throw_stops(5) [OF that nr])
  have d: "r_data (post this (fst (validateForm frm))) = serialize frm"
    "r_type (post this (fst (validateForm frm))) = ''POST''"
    by (simp_all add: post_def)
  have "(''amount'', crlf a) \<in> set (serialize frm)"
    if "list_all (\<lambda>f. f_tag f = ''input'' \<and> f_name f = Some ''amount'' \<longrightarrow> successful f)
          (controls frm)"
    using assms(1) that by (rule amount_value_serialized)
  with nr d th show ?thesis
    by (auto simp: validation_result_handled(4) toasts_def requests_def)
qed

text \<open>The theorem on the amount \<^verbatim>\<open>abc\<close>, with the request that goes out.\<close>

theorem nonnumeric_amount_is_posted_witness:
  "amount_value (donation_form ''abc'' ''a@b.co'') = Some ''abc''
   \<and> parseFloat ''abc'' = NaN
   \<and> \<not> le_zero (parseFloat ''abc'')
   \<and> snd (validateForm (donation_form ''abc'' ''a@b.co'')) = Inr \<lparr>isValid = True, v_errors = []\<rparr>
   \<and> requests (fst (snd (handleDonationProcessing example_handler (donation_form ''abc'' ''a@b.co'')))) =
       [\<lparr>r_type = ''POST'', r_url = Some ''/donate/'',
         r_data = [(''amount'', ''abc''), (''email'', ''a@b.co'')], r_dataType = ''json'',
         r_headers = [(''X-CSRFToken'', ''token'')]\<rparr>]"
proof -
  have a: "amount_value (donation_form ''abc'' ''a@b.co'') = Some ''abc''"
    by (simp add: donation_form_def form_eval)
  have n: "parseFloat ''abc'' = NaN"
    by (simp add: parse_eval string_eval)
  have w: "snd (validateForm (donation_form ''abc'' ''a@b.co'')) = Inr \<lparr>isValid = True, v_errors = []\<rparr>"
    by (simp add: donation_form_def form_eval string_eval)
  have p: "post example_handler (fst (validateForm (donation_form ''abc'' ''a@b.co''))) =
       \<lparr>r_type = ''POST'', r_url = Some ''/donate/'',
         r_data = [(''amount'', ''abc''), (''email'', ''a@b.co'')], r_dataType = ''json'',
         r_headers = [(''X-CSRFToken'', ''token'')]\<rparr>"
    by (simp add: post_def example_handler_def)
       (simp add: serialize_eval donation_form_def text_input_def)
  show ?thesis
    using nonnumeric_amount_is_posted [OF a _ n, of example_handler] a n w p
    by simp
qed

section \<open>The event-detail read path\<close>

text \<open>
  C10. An event identifier that is present but falsy is handled as a missing one: the same
  effects, which are the error notification \<^verbatim>\<open>Event ID not found\<close> and no request.
\<close>

theorem falsy_event_id_not_found:
  assumes "eventId \<noteq> Undefined" "\<not> truthy eventId"
  shows "loadEventDetails e eventId = loadEventDetails e Undefined
         \<and> toasts (loadEventDetails e eventId) = [(''error'', JStr ''Event ID not found'')]
         \<and> requests (loadEventDetails e eventId) = []"
  using assms by (simp add: loadEventDetails_def toasts_def requests_def)

text \<open>The theorem on the number 0 and on the empty string, beside the request that the
  identifier 7 sends.\<close>

theorem falsy_event_id_not_found_witness:
  "toasts (loadEventDetails example_env (JNum (Finite 0))) = [(''error'', JStr ''Event ID not found'')]
   \<and> requests (loadEventDetails example_env (JNum (Finite 0))) = []
   \<and> toasts (loadEventDetails example_env (JStr [])) = [(''error'', JStr ''Event ID not found'')]
   \<and> requests (loadEventDetails example_env (JStr [])) = []
   \<and> requests (loadEventDetails example_env (JNum (Finite 7))) =
       [\<lparr>r_type = ''GET'', r_url = Some ''/api/events/7/'', r_data = [], r_dataType = ''json'',
         r_headers = []\<rparr>]"
proof -
  have "requests (loadEventDetails example_env (JNum (Finite 7))) =
       [\<lparr>r_type = ''GET'', r_url = Some ''/api/events/7/'', r_data = [], r_dataType = ''json'',
         r_headers = []\<rparr>]"
    by (simp add: loadEventDetails_def requests_def number_to_string_def digits.simps)
  then show ?thesis
    using falsy_event_id_not_found [of "JNum (Finite 0)" example_env]
      falsy_event_id_not_found [of "JStr []" example_env]
    by auto
qed



section \<open>Transport failures\<close>

text \<open>
  C6, as amended. The error notification of a transport failure carries the message of the
  HTTP status (a fixed text for each of 400, 401, 403, 404 and 500, a generic one for every
  other status) when the response body is not JSON, or is JSON without a truthy
  \<^verbatim>\<open>message\<close>; it carries the body's \<^verbatim>\<open>message\<close> when the body is a JSON object
  whose \<^verbatim>\<open>message\<close> is truthy.
\<close>

theorem transport_failure_message:
  "(json_parse e (responseText x) = None \<longrightarrow>
      toasts (handleAjaxError e x) = [(''error'', JStr (status_message (status x)))])
   \<and> (\<forall>kvs m. json_parse e (responseText x) = Some (JObj kvs) \<and> map_of kvs ''message'' = Some m
         \<and> truthy m \<longrightarrow> toasts (handleAjaxError e x) = [(''error'', m)])
   \<and> (\<forall>v. json_parse e (responseText x) = Some v \<and> \<not> truthy (get v ''message'') \<longrightarrow>
         toasts (handleAjaxError e x) = [(''error'', JStr (status_message (status x)))])
   \<and> status_message 400 = ''Bad request. Please check your input.''
   \<and> status_message 401 = ''Unauthorized. Please log in.''
   \<and> status_message 403 = ''Forbidden. You do not have permission.''
   \<and> status_message 404 = ''Resource not found.''
   \<and> status_message 500 = ''Server error. Please try again later.''
   \<and> (s \<notin> {400, 401, 403, 404, 500} \<longrightarrow> status_message s = ''An unexpected error occurred.'')"
proof (intro conjI allI impI)
  show "toasts (handleAjaxError e x) = [(''error'', JStr (status_message (status x)))]"
    if "json_parse e (responseText x) = None"
    using that by (simp add: handleAjaxError_def toasts_def)
  show "toasts (handleAjaxError e x) = [(''error'', m)]"
    if "json_parse e (responseText x) = Some (JObj kvs) \<and> map_of kvs ''message'' = Some m \<and> truthy m"
    for kvs m
    using that by (simp add: handleAjaxError_def toasts_def)
  show "toasts (handleAjaxError e x) = [(''error'', JStr (status_message (status x)))]"
    if "json_parse e (responseText x) = Some v \<and> \<not> truthy (get v ''message'')" for v
    using that by (simp add: handleAjaxError_def toasts_def)
qed (simp_all add: status_message_def)

text \<open>The theorem on a 404 whose body is a page, on a 400 whose body carries
  \<^verbatim>\<open>Bad email\<close>, and on a 503 with no body.\<close>

theorem transport_failure_message_witness:
  \<open>toasts (handleAjaxError example_env \<lparr>status = 404, responseText = ''<h1>Not Found</h1>''\<rparr>)
     = [(''error'', JStr ''Resource not found.'')]
   \<and> toasts (handleAjaxError example_env \<lparr>status = 400, responseText = ''{"message":"Bad email"}''\<rparr>)
     = [(''error'', JStr ''Bad email'')]
   \<and> toasts (handleAjaxError example_env \<lparr>status = 503, responseText = []\<rparr>)
     = [(''error'', JStr ''An unexpected error occurred.'')]\<close>
proof -
  have a: \<open>json_parse example_env ''<h1>Not Found</h1>'' = None\<close>
    and b: \<open>json_parse example_env ''{"message":"Bad email"}'' = Some (JObj [(''message'', JStr ''Bad email'')])\<close>
    and c: \<open>json_parse example_env [] = None\<close>
    by (simp_all add: example_env_def plain_env_def)
  show ?thesis
    using transport_failure_message [of example_env "\<lparr>status = 404, responseText = ''<h1>Not Found</h1>''\<rparr>" 503]
      transport_failure_message [of example_env \<open>\<lparr>status = 400, responseText = ''{"message":"Bad email"}''\<rparr>\<close> 503]
      transport_failure_message [of example_env "\<lparr>status = 503, responseText = []\<rparr>" 503]
      a b c
    by simp
qed

text \<open>
  The claim as first stated fails on a 400 whose body is \<^verbatim>\<open>{"message":""}\<close>: the body
  is JSON and has a \<^verbatim>\<open>message\<close> field, and the notification shows the text of the
  status, not the embedded (empty) message.
\<close>

theorem empty_embedded_message_counterexample:
  \<open>json_parse example_env ''{"message":""}'' = Some (JObj [(''message'', JStr [])])
   \<and> toasts (handleAjaxError example_env \<lparr>status = 400, responseText = ''{"message":""}''\<rparr>)
     = [(''error'', JStr ''Bad request. Please check your input.'')]
   \<and> toasts (handleAjaxError example_env \<lparr>status = 400, responseText = ''{"message":""}''\<rparr>)
     \<noteq> [(''error'', JStr [])]\<close>
  by (simp add: example_env_def plain_env_def handleAjaxError_def toasts_def status_message_def)


section \<open>Failure envelopes\<close>

text \<open>For a plain key the step of the loop is \<open>flag_named\<close>, and no step raises.\<close>

lemma flag_field_plain: "plain_key k \<Longrightarrow> flag_field e k msg frm = Inr (flag_named k msg frm)"
  by (simp add: flag_field_def find_named_def flag_named_def)

lemma flag_fields_plain:
  "list_all plain_key (map fst es) \<Longrightarrow>
   flag_fields e es frm = (fold (\<lambda>(k, msg). flag_named k msg) es frm, None)"
proof (induction es arbitrary: frm)
  case Nil
  then show ?case by simp
next
  case (Cons p es)
  obtain k msg where p: "p = (k, msg)" by (cases p)
  with Cons show ?case by (simp add: flag_field_plain)
qed

lemma handleFormErrors_plain:
  "list_all plain_key (map fst (error_list r)) \<Longrightarrow>
   handleFormErrors e frm r =
     (fold (\<lambda>(k, msg). flag_named k msg) (error_list r) frm,
      [Toast ''error'' (JStr (case message r of
                                None \<Rightarrow> ''Form submission failed''
                              | Some m \<Rightarrow> if m = [] then ''Form submission failed'' else m))],
      None)"
  by (cases "message r")
     (simp_all add: handleFormErrors_def error_list_def flag_fields_plain message_value_def js_or_def)

text \<open>What one step changes, and what the whole loop leaves.\<close>

lemma flag_named_controls:
  "controls (flag_named k msg frm) =
     map (\<lambda>f. if f_name f = Some k then f\<lparr>f_invalid := True\<rparr> else f) (controls frm)"
  by (simp add: flag_named_def Let_def)

lemma flag_named_slots:
  "slots (flag_named k msg frm) =
     map (\<lambda>s. if adjacent frm k s then s\<lparr>s_text := msg\<rparr> else s) (slots frm)"
  by (simp add: flag_named_def Let_def adjacent_def)

lemma flag_named_action [simp]: "action (flag_named k msg frm) = action frm"
  by (simp add: flag_named_def Let_def)

lemma flag_named_parents:
  "map f_parent (filter (\<lambda>f. f_name f = Some k)
      (map (\<lambda>f. if f_name f = Some k' then f\<lparr>f_invalid := True\<rparr> else f) cs)) =
   map f_parent (filter (\<lambda>f. f_name f = Some k) cs)"
proof -
  let ?g = "\<lambda>f. if f_name f = Some k' then f\<lparr>f_invalid := True\<rparr> else f"
  have 1: "(\<lambda>f. f_name f = Some k) \<circ> ?g = (\<lambda>f. f_name f = Some k)"
    by (rule ext) simp
  have 2: "f_parent \<circ> ?g = f_parent"
    by (rule ext) simp
  show ?thesis
    by (simp only: filter_map map_map 1 2)
qed

lemma adjacent_flag_named [simp]: "adjacent (flag_named k' msg frm) k s = adjacent frm k s"
  by (simp only: adjacent_def flag_named_controls flag_named_parents)

lemma adjacent_text [simp]: "adjacent frm k (s\<lparr>s_text := t\<rparr>) = adjacent frm k s"
  by (simp add: adjacent_def)

lemma fold_flag_action [simp]:
  "action (fold (\<lambda>(k, msg). flag_named k msg) es frm) = action frm"
  by (induction es arbitrary: frm) (auto)

lemma fold_flag_controls:
  "controls (fold (\<lambda>(k, msg). flag_named k msg) es frm) =
     map (\<lambda>f. if f_name f \<in> Some ` fst ` set es then f\<lparr>f_invalid := True\<rparr> else f) (controls frm)"
proof (induction es arbitrary: frm)
  case Nil
  then show ?case by simp
next
  case (Cons p es)
  obtain k msg where p: "p = (k, msg)" by (cases p)
  show ?case
    by (simp add: p Cons.IH flag_named_controls)
qed

lemma slot_text_after_Nil [simp]: "slot_text_after frm [] s = s_text s"
  by (simp add: slot_text_after_def)

lemma slot_text_after_Cons:
  "slot_text_after frm ((k, msg) # es) s =
     slot_text_after frm es (if adjacent frm k s then s\<lparr>s_text := msg\<rparr> else s)"
proof (cases "adjacent frm k s")
  case True
  then show ?thesis
    by (cases "filter (\<lambda>(k, msg). adjacent frm k s) es") (simp_all add: slot_text_after_def)
next
  case False
  then show ?thesis by (simp add: slot_text_after_def)
qed

lemma slot_text_after_flag_named [simp]:
  "slot_text_after (flag_named k msg frm) es s = slot_text_after frm es s"
  by (simp add: slot_text_after_def)

lemma fold_flag_slots:
  "slots (fold (\<lambda>(k, msg). flag_named k msg) es frm) =
     map (\<lambda>s. s\<lparr>s_text := slot_text_after frm es s\<rparr>) (slots frm)"
proof (induction es arbitrary: frm)
  case Nil
  then show ?case by simp
next
  case (Cons p es)
  obtain k msg where p: "p = (k, msg)" by (cases p)
  show ?case
    by (simp add: p Cons.IH flag_named_slots slot_text_after_Cons)
qed

lemma slot_untouched:
  "\<forall>p \<in> set es. \<not> adjacent frm (fst p) s \<Longrightarrow> slot_text_after frm es s = s_text s"
proof -
  assume "\<forall>p \<in> set es. \<not> adjacent frm (fst p) s"
  then have "filter (\<lambda>(k, msg). adjacent frm k s) es = []"
    by (auto simp: filter_empty_conv)
  then show ?thesis by (simp add: slot_text_after_def)
qed

lemma slot_written:
  assumes "\<exists>p \<in> set es. adjacent frm (fst p) s"
    and "\<forall>p \<in> set es. adjacent frm (fst p) s \<longrightarrow> snd p = msg"
  shows "slot_text_after frm es s = msg"
proof -
  let ?ps = "filter (\<lambda>(k, msg). adjacent frm k s) es"
  from assms(1) have ne: "?ps \<noteq> []"
    by (auto simp: filter_empty_conv)
  then have "last ?ps \<in> set ?ps" by (rule last_in_set)
  then have "last ?ps \<in> set es" "adjacent frm (fst (last ?ps)) s"
    by (auto split: prod.splits)
  with assms(2) have "snd (last ?ps) = msg" by blast
  with ne show ?thesis
    by (cases ?ps) (simp_all add: slot_text_after_def)
qed

text \<open>
  C4, as amended. The keys of \<^verbatim>\<open>errors\<close> are taken to be plain: free of the characters
  that end or escape the quoted name in the selector \<^verbatim>\<open>[name="k"]\<close>. On an envelope
  with \<^verbatim>\<open>success = false\<close> each of the four success callbacks then stops the loading
  indicator, shows one error notification (the envelope's message when it has a non-empty
  one, \<^verbatim>\<open>Form submission failed\<close> otherwise) and ends without an exception; no request,
  no reset, no confirmation fragment. In the form it leaves, the fields named by a key of
  \<^verbatim>\<open>errors\<close> are flagged invalid and every other field is as it was, values included.
  A feedback slot ends with the error string of the last key, in the order of
  \<^verbatim>\<open>errors\<close>, that names a field beside it, and with its old text when no key does. So
  the slot beside the field of a key shows that key's error string when every key naming a
  field beside the slot provides that string, as when the slot is the slot of that field
  alone.
\<close>

theorem failure_envelope_flags_fields:
  assumes "\<not> success r" and "list_all plain_key (map fst (error_list r))"
  shows
    "(let es = error_list r;
          frm' = fst (handleFormErrors e frm r);
          shown = [LoadingAnimation False,
                   Toast ''error'' (JStr (case message r of
                                            None \<Rightarrow> ''Form submission failed''
                                          | Some m \<Rightarrow> if m = [] then ''Form submission failed'' else m))]
      in handleFormSubmission_success e frm r = (frm', shown, None)
       \<and> handleEventRegistration_success e frm r = (frm', shown, None)
       \<and> handleVolunteerSignUp_success e frm r = (frm', shown, None)
       \<and> handleDonationProcessing_success e frm r = (frm', shown, None)
       \<and> controls frm' =
           map (\<lambda>f. if f_name f \<in> Some ` fst ` set es then f\<lparr>f_invalid := True\<rparr> else f)
             (controls frm)
       \<and> map f_value (controls frm') = map f_value (controls frm)
       \<and> slots frm' =
           map (\<lambda>s. s\<lparr>s_text := (case filter (\<lambda>(k, msg). adjacent frm k s) es of
                                    [] \<Rightarrow> s_text s
                                  | p # ps \<Rightarrow> snd (last (p # ps)))\<rparr>) (slots frm)
       \<and> action frm' = action frm
       \<and> (\<forall>s k msg. (k, msg) \<in> set es \<and> adjacent frm k s
             \<and> (\<forall>k' msg'. (k', msg') \<in> set es \<and> adjacent frm k' s \<longrightarrow> msg' = msg)
             \<longrightarrow> slot_text_after frm es s = msg)
       \<and> (\<forall>s. (\<forall>k msg. (k, msg) \<in> set es \<longrightarrow> \<not> adjacent frm k s)
             \<longrightarrow> slot_text_after frm es s = s_text s))"
proof -
  let ?es = "error_list r"
  let ?frm = "fst (handleFormErrors e frm r)"
  let ?shown = "[Toast ''error'' (JStr (case message r of
                                None \<Rightarrow> ''Form submission failed''
                              | Some m \<Rightarrow> if m = [] then ''Form submission failed'' else m))]"
  note h = handleFormErrors_plain [OF assms(2), of e frm]
  have fo: "?frm = fold (\<lambda>(k, msg). flag_named k msg) ?es frm"
    by (simp add: h)
  have h': "handleFormErrors e frm r = (?frm, ?shown, None)"
    by (simp add: h)
  have c: "controls ?frm =
      map (\<lambda>f. if f_name f \<in> Some ` fst ` set ?es then f\<lparr>f_invalid := True\<rparr> else f) (controls frm)"
    by (simp only: fo fold_flag_controls)
  have v: "map f_value (controls ?frm) = map f_value (controls frm)"
    by (simp add: c comp_def if_distrib cong: if_cong)
  have s: "slots ?frm =
           map (\<lambda>s. s\<lparr>s_text := (case filter (\<lambda>(k, msg). adjacent frm k s) ?es of
                                    [] \<Rightarrow> s_text s
                                  | p # ps \<Rightarrow> snd (last (p # ps)))\<rparr>) (slots frm)"
    by (simp only: fo fold_flag_slots slot_text_after_def)
  have a: "action ?frm = action frm"
    by (simp only: fo fold_flag_action)
  have w: "slot_text_after frm ?es s = msg"
    if "(k, msg) \<in> set ?es \<and> adjacent frm k s
        \<and> (\<forall>k' msg'. (k', msg') \<in> set ?es \<and> adjacent frm k' s \<longrightarrow> msg' = msg)" for s k msg
  proof (rule slot_written)
    show "\<exists>p \<in> set ?es. adjacent frm (fst p) s" using that by force
    show "\<forall>p \<in> set ?es. adjacent frm (fst p) s \<longrightarrow> snd p = msg" using that by force
  qed
  have u: "slot_text_after frm ?es s = s_text s"
    if "\<forall>k msg. (k, msg) \<in> set ?es \<longrightarrow> \<not> adjacent frm k s" for s
    by (rule slot_untouched) (use that in force)
  have f1: "handleFormSubmission_success e frm r = (?frm, LoadingAnimation False # ?shown, None)"
    using assms(1) by (subst handleFormSubmission_success_def, subst h') simp
  have f2: "handleEventRegistration_success e frm r = (?frm, LoadingAnimation False # ?shown, None)"
    using assms(1) by (subst handleEventRegistration_success_def, subst h') simp
  have f3: "handleVolunteerSignUp_success e frm r = (?frm, LoadingAnimation False # ?shown, None)"
    using assms(1) by (subst handleVolunteerSignUp_success_def, subst h') simp
  have f4: "handleDonationProcessing_success e frm r = (?frm, LoadingAnimation False # ?shown, None)"
    using assms(1) by (subst handleDonationProcessing_success_def, subst h') simp
  show ?thesis
    unfolding Let_def
    using c v s a w u f1 f2 f3 f4 by blast
qed

text \<open>The theorem on the envelope \<^verbatim>\<open>{success:false, errors:{"email":"Invalid"}}\<close>:
  the email field alone is flagged, its slot alone shows \<^verbatim>\<open>Invalid\<close>, no value changes.\<close>

theorem failure_envelope_flags_fields_witness:
  "\<not> success email_error
   \<and> list_all plain_key (map fst (error_list email_error))
   \<and> handleEventRegistration_success example_env (contact_form ''Ann'' ''ann@b.co'' []) email_error =
       (fst (handleFormErrors example_env (contact_form ''Ann'' ''ann@b.co'' []) email_error),
        [LoadingAnimation False, Toast ''error'' (JStr ''Form submission failed'')], None)
   \<and> map f_invalid (controls (fst (handleFormErrors example_env (contact_form ''Ann'' ''ann@b.co'' []) email_error)))
       = [False, True, False]
   \<and> map f_value (controls (fst (handleFormErrors example_env (contact_form ''Ann'' ''ann@b.co'' []) email_error)))
       = [''Ann'', ''ann@b.co'', []]
   \<and> map s_text (slots (fst (handleFormErrors example_env (contact_form ''Ann'' ''ann@b.co'' []) email_error)))
       = [[], ''Invalid'', []]"
proof -
  let ?F = "contact_form ''Ann'' ''ann@b.co'' []"
  let ?F' = "fst (handleFormErrors example_env ?F email_error)"
  have ns: "\<not> success email_error"
    and m: "message email_error = None"
    and es: "error_list email_error = [(''email'', ''Invalid'')]"
    by (simp_all add: email_error_def error_list_def)
  have pk: "list_all plain_key (map fst (error_list email_error))"
    by (simp add: es plain_key_def)
  note T = failure_envelope_flags_fields [OF ns pk, of example_env ?F, unfolded Let_def]
  from T have "handleEventRegistration_success example_env ?F email_error =
       (?F', [LoadingAnimation False,
              Toast ''error'' (JStr (case message email_error of
                                       None \<Rightarrow> ''Form submission failed''
                                     | Some m \<Rightarrow> if m = [] then ''Form submission failed'' else m))],
        None)"
    by blast
  then have r: "handleEventRegistration_success example_env ?F email_error =
       (?F', [LoadingAnimation False, Toast ''error'' (JStr ''Form submission failed'')], None)"
    by (simp add: m)
  from T have "controls ?F' =
       map (\<lambda>f. if f_name f \<in> Some ` fst ` set (error_list email_error)
                 then f\<lparr>f_invalid := True\<rparr> else f) (controls ?F)"
    by blast
  then have c: "map f_invalid (controls ?F') = [False, True, False]"
    by (simp add: es contact_form_def text_input_def)
  from T have v: "map f_value (controls ?F') = map f_value (controls ?F)"
    by blast
  from T have "slots ?F' =
           map (\<lambda>s. s\<lparr>s_text := (case filter (\<lambda>(k, msg). adjacent ?F k s) (error_list email_error) of
                                    [] \<Rightarrow> s_text s
                                  | p # ps \<Rightarrow> snd (last (p # ps)))\<rparr>) (slots ?F)"
    by blast
  then have s: "map s_text (slots ?F') = [[], ''Invalid'', []]"
    by (simp add: es contact_form_def text_input_def feedback_def adjacent_def)
  show ?thesis
    using ns pk r c v s by (simp add: contact_form_def text_input_def)
qed

text \<open>
  The claim as first stated fails on a form whose fields \<^verbatim>\<open>first\<close> and \<^verbatim>\<open>last\<close> stand
  under one parent with one feedback slot, and the envelope
  \<^verbatim>\<open>{success:false, errors:{"first":"A","last":"B"}}\<close>: the slot is adjacent to the
  field \<^verbatim>\<open>first\<close>, whose error string is \<^verbatim>\<open>A\<close>, and it ends with the text \<^verbatim>\<open>B\<close>.
\<close>

theorem shared_slot_last_key_wins_counterexample:
  "\<not> success names_error
   \<and> map f_name (controls name_form) = [Some ''first'', Some ''last'']
   \<and> map f_parent (controls name_form) = [0, 0]
   \<and> slots name_form = [\<lparr>s_parent = 0, s_text = []\<rparr>]
   \<and> adjacent name_form ''first'' \<lparr>s_parent = 0, s_text = []\<rparr>
   \<and> errors names_error = Some [(''first'', ''A''), (''last'', ''B'')]
   \<and> handleEventRegistration_success example_env name_form names_error =
       (fst (handleFormErrors example_env name_form names_error),
        [LoadingAnimation False, Toast ''error'' (JStr ''Form submission failed'')], None)
   \<and> map f_invalid (controls (fst (handleFormErrors example_env name_form names_error))) = [True, True]
   \<and> slots (fst (handleFormErrors example_env name_form names_error)) = [\<lparr>s_parent = 0, s_text = ''B''\<rparr>]
   \<and> map s_text (slots (fst (handleFormErrors example_env name_form names_error))) \<noteq> [''A'']"
  by (simp add: names_error_def name_form_def handleEventRegistration_success_def
      handleFormErrors_def flag_field_def find_named_def plain_key_def text_input_def feedback_def
      message_value_def js_or_def adjacent_def)

text \<open>A key with a double quote in it ends the loop of the example host by a syntax error of
  the selector: the notification has been shown, the field of that key and the fields of the
  keys after it are not flagged.\<close>

lemma quoted_key_raises:
  \<open>handleFormErrors example_env name_form
      \<lparr>success = False, message = None, data = Undefined,
       errors = Some [(''first'', ''A''), (''a"b'', ''X''), (''last'', ''B'')]\<rparr> =
     (name_form\<lparr>controls := [(text_input ''first'' ''text'' True [] 0)\<lparr>f_invalid := True\<rparr>,
                            text_input ''last'' ''text'' True [] 0],
               slots := [\<lparr>s_parent = 0, s_text = ''A''\<rparr>]\<rparr>,
      [Toast ''error'' (JStr ''Form submission failed'')], Some SelectorError)\<close>
  by (simp add: name_form_def handleFormErrors_def flag_field_def find_named_def plain_key_def
      text_input_def feedback_def message_value_def js_or_def example_env_def plain_env_def)

section \<open>Success envelopes\<close>

text \<open>On success the contact callback resets and clears every flag; the other three reset
  only, and a reset leaves the flags.\<close>

lemma reset_keeps_flags: "map f_invalid (controls (reset frm)) = map f_invalid (controls frm)"
  by (simp add: reset_def comp_def)

lemma clear_invalid_flags: "list_all (\<lambda>f. \<not> f_invalid f) (controls (clear_invalid frm))"
  by (simp add: clear_invalid_def list_all_iff)

lemma success_resets:
  "success r \<Longrightarrow> fst (handleEventRegistration_success e frm r) = reset frm"
  "success r \<Longrightarrow> fst (handleVolunteerSignUp_success e frm r) = reset frm"
  "success r \<Longrightarrow> fst (handleDonationProcessing_success e frm r) = reset frm"
  "success r \<Longrightarrow> fst (handleFormSubmission_success e frm r) = clear_invalid (reset frm)"
  by (simp_all add: handleEventRegistration_success_def handleVolunteerSignUp_success_def
      handleDonationProcessing_success_def handleFormSubmission_success_def)

text \<open>
  C1, at a failing input. \<open>flagged_form\<close> is a form whose optional phone field the server
  refused: the field is flagged and the form still passes validation, so it can be
  submitted again. When that submission succeeds, the registration, volunteer and donation
  callbacks empty the values and leave the phone field flagged; the contact callback clears
  the flag. \<open>flagged_gift_form\<close> is the same for a donation form, with its amount: the
  donation handler sends it, and the donation callback leaves its phone field flagged.
\<close>

theorem success_keeps_invalid_flag:
  "map f_invalid (controls flagged_form) = [False, False, True]
   \<and> snd (validateForm flagged_form) = Inr \<lparr>isValid = True, v_errors = []\<rparr>
   \<and> requests (fst (snd (handleEventRegistration example_handler flagged_form))) \<noteq> []
   \<and> fst (handleEventRegistration example_handler flagged_form) = flagged_form
   \<and> map f_value (controls (fst (handleEventRegistration_success example_env flagged_form ok_envelope)))
       = [[], [], []]
   \<and> map f_invalid (controls (fst (handleEventRegistration_success example_env flagged_form ok_envelope)))
       = [False, False, True]
   \<and> map f_invalid (controls (fst (handleVolunteerSignUp_success example_env flagged_form ok_envelope)))
       = [False, False, True]
   \<and> map f_invalid (controls (fst (handleDonationProcessing_success example_env flagged_form ok_envelope)))
       = [False, False, True]
   \<and> map f_invalid (controls (fst (handleFormSubmission_success example_env flagged_form ok_envelope)))
       = [False, False, False]
   \<and> map f_invalid (controls flagged_gift_form) = [False, False, True]
   \<and> \<not> amount_rejected (amount_value flagged_gift_form)
   \<and> snd (validateForm flagged_gift_form) = Inr \<lparr>isValid = True, v_errors = []\<rparr>
   \<and> requests (fst (snd (handleDonationProcessing example_handler flagged_gift_form))) \<noteq> []
   \<and> fst (handleDonationProcessing example_handler flagged_gift_form) = flagged_gift_form
   \<and> map f_value (controls (fst (handleDonationProcessing_success example_env flagged_gift_form ok_envelope)))
       = [[], [], []]
   \<and> map f_invalid (controls (fst (handleDonationProcessing_success example_env flagged_gift_form ok_envelope)))
       = [False, False, True]"
proof -
  have f: "flagged_form =
      \<lparr>action = Some ''/contact/'',
       controls = [text_input ''name'' ''text'' True ''Ann'' 0,
                   text_input ''email'' ''email'' True ''ann@b.co'' 1,
                   (text_input ''phone'' ''tel'' False ''12345'' 2)\<lparr>f_invalid := True\<rparr>],
       slots = [\<lparr>s_parent = 0, s_text = []\<rparr>, \<lparr>s_parent = 1, s_text = []\<rparr>,
                \<lparr>s_parent = 2, s_text = ''Invalid phone''\<rparr>]\<rparr>"
    by (simp add: flagged_form_def handleFormErrors_def phone_error_def contact_form_def
        flag_field_def find_named_def plain_key_def text_input_def feedback_def)
  have g: "flagged_gift_form =
      \<lparr>action = Some ''/donate/'',
       controls = [text_input ''amount'' ''text'' True ''25'' 0,
                   text_input ''email'' ''email'' True ''ann@b.co'' 1,
                   (text_input ''phone'' ''tel'' False ''12345'' 2)\<lparr>f_invalid := True\<rparr>],
       slots = [\<lparr>s_parent = 0, s_text = []\<rparr>, \<lparr>s_parent = 1, s_text = []\<rparr>,
                \<lparr>s_parent = 2, s_text = ''Invalid phone''\<rparr>]\<rparr>"
    by (simp add: flagged_gift_form_def handleFormErrors_def phone_error_def gift_form_def
        flag_field_def find_named_def plain_key_def text_input_def feedback_def)
  have v: "validateForm flagged_form = (flagged_form, Inr \<lparr>isValid = True, v_errors = []\<rparr>)"
    by (simp add: f form_eval string_eval)
  have w: "validateForm flagged_gift_form = (flagged_gift_form, Inr \<lparr>isValid = True, v_errors = []\<rparr>)"
    by (simp add: g form_eval string_eval)
  have a: "\<not> amount_rejected (amount_value flagged_gift_form)"
    by (simp add: g form_eval parse_eval string_eval)
  have ok: "success ok_envelope" by (simp add: ok_envelope_def)
  have 1: "map f_invalid (controls flagged_form) = [False, False, True]"
    "map f_invalid (controls flagged_gift_form) = [False, False, True]"
    by (simp_all add: f g text_input_def)
  have 2: "map f_value (controls (reset flagged_form)) = [[], [], []]"
    "map f_value (controls (reset flagged_gift_form)) = [[], [], []]"
    by (simp_all add: f g reset_def text_input_def)
  have 3: "map f_invalid (controls (clear_invalid (reset flagged_form))) = [False, False, False]"
    by (simp add: f reset_def clear_invalid_def text_input_def)
  show ?thesis
    using a
    by (simp add: success_resets [OF ok] handleEventRegistration_def handleDonationProcessing_def
          v w requests_def reset_keeps_flags 1 2 3)
qed

text \<open>
  C2, at a failing input. On a success envelope without \<^verbatim>\<open>message\<close> the registration,
  volunteer and donation callbacks pass \<^verbatim>\<open>undefined\<close> to the notification, which prints
  it as the text \<^verbatim>\<open>undefined\<close>; the contact callback shows its default message.
\<close>

theorem success_without_message_shows_undefined:
  "message bare_success = None \<and> success bare_success
   \<and> toasts (fst (snd (handleEventRegistration_success e frm bare_success))) = [(''success'', Undefined)]
   \<and> toasts (fst (snd (handleVolunteerSignUp_success e frm bare_success))) = [(''success'', Undefined)]
   \<and> toasts (fst (snd (handleDonationProcessing_success e frm bare_success))) = [(''success'', Undefined)]
   \<and> toast_body e Undefined = ''undefined''
   \<and> toasts (fst (snd (handleFormSubmission_success e frm bare_success)))
       = [(''success'', JStr ''Form submitted successfully'')]"
  by (simp add: bare_success_def handleEventRegistration_success_def handleVolunteerSignUp_success_def
      handleDonationProcessing_success_def handleFormSubmission_success_def and_then_def
      message_value_def js_or_def toasts_def toast_body_def)

section \<open>Confirmation fragments\<close>





text \<open>
  Beside these: a campaign progress without \<^verbatim>\<open>current\<close> updates the bar and then
  throws, since \<^verbatim>\<open>progress.current.toLocaleString()\<close> is called on \<^verbatim>\<open>undefined\<close>;
  the donation callback ends there, before the receipt and the completion signal.
\<close>

lemma progress_without_current_raises:
  "updateDonationProgress example_env (JObj [(''percentage'', JNum (Finite 75))]) =
     ([SetCss ''#donation-progress'' ''width'' ''75%'',
       SetAttr ''#donation-progress'' ''aria-valuenow'' ''75'',
       SetText ''#donation-progress'' ''75%''],
      Some TypeError)"
  "snd (handleDonationProcessing_success example_env frm
     (ok_envelope\<lparr>data := JObj [(''campaign_progress'', JObj [(''percentage'', JNum (Finite 75))]),
                                (''receipt_url'', JStr ''/receipts/TXN-98765'')]\<rparr>)) =
     ([LoadingAnimation False, Toast ''success'' (JStr ''OK''),
       SetCss ''#donation-progress'' ''width'' ''75%'',
       SetAttr ''#donation-progress'' ''aria-valuenow'' ''75'',
       SetText ''#donation-progress'' ''75%''],
      Some TypeError)"
  by (simp_all add: updateDonationProgress_def handleDonationProcessing_success_def ok_envelope_def
      example_env_def plain_env_def toLocaleString_def number_to_string_def digits.simps js_or_def
      and_then_def message_value_def)

end
